theory Spec2Isabelle
  imports Complex_Main
begin

section \<open>Python values shared by the modules\<close>

text \<open>
  A Python \<open>str\<close> is a sequence of Unicode code points, and \<open>len\<close> counts code points;
  a string is therefore a list of code-point numbers. \<open>S\<close> embeds an ASCII literal.
\<close>

type_synonym pystr = "nat list"

definition S :: "string \<Rightarrow> pystr" where
  "S s = map of_char s"

datatype exn = TypeError | ValueError | OverflowError | ZeroDivisionError
  | IndexError | AttributeError | UnicodeDecodeError | LibraryError

text \<open>
  A float is a finite value, given by the real number it represents, or one of the IEEE
  special values. The result of an arithmetic operation on finite operands is the exact
  result rounded to the float format, and it is an infinity when the exact result is out of
  range. The rounding is a parameter \<open>r\<close> of the functions that compute a float and
  compare it, so that nothing depends on the digits a particular format keeps; the rounding
  of the program is round-to-nearest of binary64. A decimal literal \<open>c\<close> of the source is
  there the float \<open>r c\<close>; the literals that every binary format represents exactly
  (integers of moderate size, 0.5, 1.5) are written as they are. The sign of a zero is not
  modelled. A number that is only returned or compared with one literal (a confidence, a
  polarity) is the real number its literal denotes, and the weighted sum of the ensemble
  forecast is the expression over the real numbers.
\<close>

datatype pyfloat = Fin real | PInf | NInf | NaN

type_synonym rounding = "real \<Rightarrow> pyfloat"

fun flt :: "pyfloat \<Rightarrow> pyfloat \<Rightarrow> bool" where
  "flt (Fin x) (Fin y) = (x < y)"
| "flt (Fin x) PInf = True"
| "flt NInf (Fin y) = True"
| "flt NInf PInf = True"
| "flt _ _ = False"

definition fgt :: "pyfloat \<Rightarrow> pyfloat \<Rightarrow> bool" where
  "fgt a b = flt b a"

definition fle :: "pyfloat \<Rightarrow> pyfloat \<Rightarrow> bool" where
  "fle a b = (a \<noteq> NaN \<and> b \<noteq> NaN \<and> \<not> flt b a)"

definition fge :: "pyfloat \<Rightarrow> pyfloat \<Rightarrow> bool" where
  "fge a b = fle b a"

text \<open>
  What the properties below need of a rounding: it keeps the order, and it is exact on
  0, 1/2 and 1. Round-to-nearest of a binary format has these properties.
\<close>

definition is_rounding :: "rounding \<Rightarrow> bool" where
  "is_rounding r \<longleftrightarrow>
     (\<forall>x y. x \<le> y \<longrightarrow> fle (r x) (r y)) \<and> r 0 = Fin 0 \<and> r (1 / 2) = Fin (1 / 2)
     \<and> r 1 = Fin 1"

fun fneg :: "pyfloat \<Rightarrow> pyfloat" where
  "fneg (Fin x) = Fin (- x)"
| "fneg PInf = NInf"
| "fneg NInf = PInf"
| "fneg NaN = NaN"

fun fabs :: "pyfloat \<Rightarrow> pyfloat" where
  "fabs (Fin x) = Fin \<bar>x\<bar>"
| "fabs PInf = PInf"
| "fabs NInf = PInf"
| "fabs NaN = NaN"

fun fadd :: "rounding \<Rightarrow> pyfloat \<Rightarrow> pyfloat \<Rightarrow> pyfloat" where
  "fadd r (Fin x) (Fin y) = r (x + y)"
| "fadd r NaN _ = NaN"
| "fadd r _ NaN = NaN"
| "fadd r PInf NInf = NaN"
| "fadd r NInf PInf = NaN"
| "fadd r PInf _ = PInf"
| "fadd r NInf _ = NInf"
| "fadd r _ PInf = PInf"
| "fadd r _ NInf = NInf"

definition fsub :: "rounding \<Rightarrow> pyfloat \<Rightarrow> pyfloat \<Rightarrow> pyfloat" where
  "fsub r a b = fadd r a (fneg b)"

text \<open>The sign of a product or quotient with an infinite operand; \<open>sg\<close> is \<open>None\<close> for a
  zero factor, whose product with an infinity is NaN.\<close>

fun sg :: "pyfloat \<Rightarrow> bool option" where
  "sg (Fin x) = (if x = 0 then None else Some (0 < x))"
| "sg PInf = Some True"
| "sg NInf = Some False"
| "sg NaN = None"

definition signed_inf :: "bool \<Rightarrow> pyfloat" where
  "signed_inf pos = (if pos then PInf else NInf)"

fun fmul :: "rounding \<Rightarrow> pyfloat \<Rightarrow> pyfloat \<Rightarrow> pyfloat" where
  "fmul r (Fin x) (Fin y) = r (x * y)"
| "fmul r NaN _ = NaN"
| "fmul r _ NaN = NaN"
| "fmul r a b =
     (case (sg a, sg b) of
        (Some p, Some q) \<Rightarrow> signed_inf (p = q)
      | _ \<Rightarrow> NaN)"

text \<open>
  Division of NumPy scalars (\<open>np.float64\<close>): a division by zero gives an infinity, or NaN
  for \<open>0 / 0\<close>, with a warning and no exception. The zero divisor counts as positive.
\<close>

fun np_div :: "rounding \<Rightarrow> pyfloat \<Rightarrow> pyfloat \<Rightarrow> pyfloat" where
  "np_div r NaN _ = NaN"
| "np_div r _ NaN = NaN"
| "np_div r (Fin x) (Fin y) =
     (if y \<noteq> 0 then r (x / y)
      else if x = 0 then NaN else signed_inf (0 < x))"
| "np_div r (Fin x) _ = Fin 0"
| "np_div r a (Fin y) =
     (case sg a of Some p \<Rightarrow> signed_inf (p = (0 \<le> y)) | None \<Rightarrow> NaN)"
| "np_div r _ _ = NaN"

text \<open>Division of Python floats: a zero divisor raises \<open>ZeroDivisionError\<close>.\<close>

definition py_div :: "rounding \<Rightarrow> pyfloat \<Rightarrow> pyfloat \<Rightarrow> exn + pyfloat" where
  "py_div r a b = (if b = Fin 0 then Inl ZeroDivisionError else Inr (np_div r a b))"

text \<open>\<open>np.sqrt\<close>.\<close>

fun fsqrt :: "rounding \<Rightarrow> pyfloat \<Rightarrow> pyfloat" where
  "fsqrt r (Fin x) = (if x < 0 then NaN else r (sqrt x))"
| "fsqrt r PInf = PInf"
| "fsqrt r NInf = NaN"
| "fsqrt r NaN = NaN"

text \<open>
  A number of a list that can hold Python floats and NumPy scalars: the two kinds differ
  in what a division by zero does.
\<close>

datatype number = PyFloat real | NpFloat real

fun value_of :: "number \<Rightarrow> real" where
  "value_of (PyFloat x) = x"
| "value_of (NpFloat x) = x"

fun is_numpy :: "number \<Rightarrow> bool" where
  "is_numpy (PyFloat x) = False"
| "is_numpy (NpFloat x) = True"

text \<open>The built-ins \<open>max(a, b)\<close> and \<open>min(a, b)\<close>: the second argument replaces the first
  only when the comparison holds, so a NaN in the second place is dropped and a NaN in the
  first place stays.\<close>

definition py_max :: "pyfloat \<Rightarrow> pyfloat \<Rightarrow> pyfloat" where
  "py_max a b = (if fgt b a then b else a)"

definition py_min :: "pyfloat \<Rightarrow> pyfloat \<Rightarrow> pyfloat" where
  "py_min a b = (if flt b a then b else a)"

text \<open>The values found in the dictionaries passed between the modules.\<close>

datatype pyval = PNone | PInt int | PNum pyfloat | PStr pystr
  | PDict "(pystr \<times> pyval) list"

type_synonym pydict = "(pystr \<times> pyval) list"

definition dict_get :: "pydict \<Rightarrow> pystr \<Rightarrow> pyval \<Rightarrow> pyval" where
  "dict_get d k dflt = (case map_of d k of None \<Rightarrow> dflt | Some v \<Rightarrow> v)"

fun truthy :: "pyval \<Rightarrow> bool" where
  "truthy PNone = False"
| "truthy (PInt i) = (i \<noteq> 0)"
| "truthy (PNum x) = (x \<noteq> Fin 0)"
| "truthy (PStr s) = (s \<noteq> [])"
| "truthy (PDict d) = (d \<noteq> [])"

text \<open>An ordering comparison with a number raises \<open>TypeError\<close> on \<open>None\<close>, a string or a
  dictionary.\<close>

fun as_num :: "pyval \<Rightarrow> exn + pyfloat" where
  "as_num (PNum x) = Inr x"
| "as_num (PInt i) = Inr (Fin (real_of_int i))"
| "as_num _ = Inl TypeError"

text \<open>\<open>v.get(k, dflt)\<close> on a value that should be a dictionary: anything else has no
  \<open>get\<close>.\<close>

fun val_get :: "pyval \<Rightarrow> pystr \<Rightarrow> pyval \<Rightarrow> exn + pyval" where
  "val_get (PDict d) k dflt = Inr (dict_get d k dflt)"
| "val_get _ k dflt = Inl AttributeError"

section \<open>Methods of \<open>str\<close>\<close>

text \<open>The code points \<open>str.split()\<close> and \<open>str.strip()\<close> treat as whitespace.\<close>

definition py_isspace :: "nat \<Rightarrow> bool" where
  "py_isspace c =
     ((9 \<le> c \<and> c \<le> 13) \<or> (28 \<le> c \<and> c \<le> 32) \<or> c = 133 \<or> c = 160 \<or> c = 5760
      \<or> (8192 \<le> c \<and> c \<le> 8202) \<or> c = 8232 \<or> c = 8233 \<or> c = 8239 \<or> c = 8287
      \<or> c = 12288)"

text \<open>\<open>s.split()\<close>: the maximal runs of non-whitespace; \<open>cur\<close> is the run being read.\<close>

fun split_ws :: "pystr \<Rightarrow> pystr \<Rightarrow> pystr list" where
  "split_ws cur [] = (if cur = [] then [] else [cur])"
| "split_ws cur (c # cs) =
     (if py_isspace c then (if cur = [] then split_ws [] cs else cur # split_ws [] cs)
      else split_ws (cur @ [c]) cs)"

definition py_split :: "pystr \<Rightarrow> pystr list" where
  "py_split s = split_ws [] s"

text \<open>\<open>s.split(sep)\<close> for a separator of one character: empty pieces are kept.\<close>

fun split_on :: "nat \<Rightarrow> pystr \<Rightarrow> pystr list" where
  "split_on sep [] = [[]]"
| "split_on sep (c # cs) =
     (if c = sep then [] # split_on sep cs
      else (case split_on sep cs of
              [] \<Rightarrow> [[c]]
            | w # ws \<Rightarrow> (c # w) # ws))"

definition strip_where :: "(nat \<Rightarrow> bool) \<Rightarrow> pystr \<Rightarrow> pystr" where
  "strip_where P s = rev (dropWhile P (rev (dropWhile P s)))"

text \<open>\<open>s.strip()\<close> and \<open>s.strip(chars)\<close>.\<close>

definition strip :: "pystr \<Rightarrow> pystr" where
  "strip s = strip_where py_isspace s"

definition strip_chars :: "pystr \<Rightarrow> pystr \<Rightarrow> pystr" where
  "strip_chars chars s = strip_where (\<lambda>c. c \<in> set chars) s"

text \<open>\<open>w in s\<close> for strings.\<close>

fun starts_with :: "pystr \<Rightarrow> pystr \<Rightarrow> bool" where
  "starts_with s [] = True"
| "starts_with [] (c # w) = False"
| "starts_with (d # s) (c # w) = (d = c \<and> starts_with s w)"

fun contains :: "pystr \<Rightarrow> pystr \<Rightarrow> bool" where
  "contains [] w = (w = [])"
| "contains (c # s) w = (starts_with (c # s) w \<or> contains s w)"

text \<open>\<open>sep.join(xs)\<close>.\<close>

fun join :: "pystr \<Rightarrow> pystr list \<Rightarrow> pystr" where
  "join sep [] = []"
| "join sep [x] = x"
| "join sep (x # y # ys) = x @ sep @ join sep (y # ys)"

text \<open>\<open>str(n)\<close> for a natural number.\<close>

function str_nat :: "nat \<Rightarrow> pystr" where
  "str_nat n = (if n < 10 then [48 + n] else str_nat (n div 10) @ [48 + n mod 10])"
  by pat_completeness auto
termination
  by (relation "measure id") auto

declare str_nat.simps [simp del]

text \<open>The newline and the apostrophe.\<close>

definition nl :: pystr where
  "nl = [10]"

definition apostrophe :: pystr where
  "apostrophe = [39]"

section \<open>core/cache\_manager.py\<close>

text \<open>
  \<open>datetime\<close> values are counted in microseconds (the resolution of \<open>datetime\<close>), so
  a difference of two clock readings is an integer number of microseconds.
  \<open>timedelta(minutes=m)\<close> raises \<open>OverflowError\<close> when the normalised number of days
  leaves \<open>[-999999999, 999999999]\<close>.
\<close>

definition timedelta_minutes :: "int \<Rightarrow> exn + int" where
  "timedelta_minutes m =
     (if m div 1440 < - 999999999 \<or> 999999999 < m div 1440 then Inl OverflowError
      else Inr (m * 60000000))"

text \<open>An entry of the store: \<open>{'data': ..., 'timestamp': ...}\<close>. The data is any Python
  value; \<open>None\<close> stands for Python's \<open>None\<close>.\<close>

record 'v cached_item =
  data :: "'v option"
  timestamp :: int

text \<open>The two counters of \<open>PerformanceMonitor.metrics\<close> that the cache touches.\<close>

record monitor =
  cache_hits :: nat
  cache_misses :: nat

definition track_cache_hit :: "monitor \<Rightarrow> monitor" where
  "track_cache_hit m = m\<lparr>cache_hits := cache_hits m + 1\<rparr>"

definition track_cache_miss :: "monitor \<Rightarrow> monitor" where
  "track_cache_miss m = m\<lparr>cache_misses := cache_misses m + 1\<rparr>"

text \<open>
  The state a \<open>CacheManager\<close> works on: the store (in \<open>st.session_state\<close> or in the
  instance, as \<open>_use_session_state\<close> says; one manager only ever uses one of them), and
  \<open>st.session_state.performance_monitor\<close> when that attribute exists.
\<close>

record 'v cache_state =
  cache_store :: "pystr \<rightharpoonup> 'v cached_item"
  use_session_state :: bool
  performance_monitor :: "monitor option"

text \<open>
  \<open>_generate_key\<close>. \<open>json.dumps(params, sort_keys=True, default=str)\<close> and the MD5
  hex digest are library functions and are parameters of the model; \<open>json.dumps\<close> can raise
  (keys that are not of a basic type).
\<close>

definition generate_key ::
  "('p \<Rightarrow> exn + pystr) \<Rightarrow> (pystr \<Rightarrow> pystr) \<Rightarrow> pystr \<Rightarrow> 'p \<Rightarrow> exn + pystr" where
  "generate_key json_dumps md5_hexdigest prefix params =
     (case json_dumps params of
        Inl e \<Rightarrow> Inl e
      | Inr param_str \<Rightarrow> Inr (prefix @ S ''_'' @ md5_hexdigest param_str))"

definition track :: "(monitor \<Rightarrow> monitor) \<Rightarrow> 'v cache_state \<Rightarrow> 'v cache_state" where
  "track f st =
     (if use_session_state st then
        (case performance_monitor st of
           None \<Rightarrow> st
         | Some m \<Rightarrow> st\<lparr>performance_monitor := Some (f m)\<rparr>)
      else st)"

text \<open>\<open>CacheManager.get\<close>; \<open>now\<close> is what \<open>datetime.now()\<close> reads during the call.\<close>

definition CacheManager_get ::
  "('p \<Rightarrow> exn + pystr) \<Rightarrow> (pystr \<Rightarrow> pystr) \<Rightarrow> int \<Rightarrow> pystr \<Rightarrow> 'p \<Rightarrow> int
     \<Rightarrow> 'v cache_state \<Rightarrow> exn + ('v option \<times> 'v cache_state)" where
  "CacheManager_get json_dumps md5_hexdigest now prefix params ttl_minutes st =
     (case generate_key json_dumps md5_hexdigest prefix params of
        Inl e \<Rightarrow> Inl e
      | Inr key \<Rightarrow>
          (case cache_store st key of
             None \<Rightarrow> Inr (None, track track_cache_miss st)
           | Some cached_item \<Rightarrow>
               (case timedelta_minutes ttl_minutes of
                  Inl e \<Rightarrow> Inl e
                | Inr ttl \<Rightarrow>
                    if now - timestamp cached_item < ttl
                    then Inr (data cached_item, track track_cache_hit st)
                    else Inr (None,
                      track track_cache_miss
                        (st\<lparr>cache_store := (cache_store st)(key := None)\<rparr>)))))"

text \<open>\<open>CacheManager.set\<close>.\<close>

definition CacheManager_set ::
  "('p \<Rightarrow> exn + pystr) \<Rightarrow> (pystr \<Rightarrow> pystr) \<Rightarrow> int \<Rightarrow> pystr \<Rightarrow> 'p \<Rightarrow> 'v option
     \<Rightarrow> 'v cache_state \<Rightarrow> exn + 'v cache_state" where
  "CacheManager_set json_dumps md5_hexdigest now prefix params d st =
     (case generate_key json_dumps md5_hexdigest prefix params of
        Inl e \<Rightarrow> Inl e
      | Inr key \<Rightarrow>
          Inr (st\<lparr>cache_store := (cache_store st)(key \<mapsto> \<lparr>data = d, timestamp = now\<rparr>)\<rparr>))"

section \<open>investment\_strategy.py\<close>

datatype InvestmentAction = STRONG_BUY | BUY | HOLD | WEAK_SELL | SELL

record InvestmentRecommendation =
  symbol :: pystr
  action :: InvestmentAction
  confidence :: real
  target_price :: pyfloat
  reasoning :: pystr
  risk_level :: pystr
  time_horizon :: pystr

text \<open>\<open>_calculate_technical_score\<close>. Each \<open>+=\<close> and \<open>-=\<close> is a float addition or
  subtraction of a decimal literal.\<close>

definition calculate_technical_score :: "rounding \<Rightarrow> pydict \<Rightarrow> exn + pyfloat" where
  "calculate_technical_score r indicators =
     (let score = Fin 0.5 in
      if indicators = [] then Inr score
      else
        case as_num (dict_get indicators (S ''rsi'') (PNum (Fin 50))) of
          Inl e \<Rightarrow> Inl e
        | Inr rsi \<Rightarrow>
        let score =
              (if fle (Fin 30) rsi \<and> fle rsi (Fin 70) then fadd r score (r 0.1)
               else if flt rsi (Fin 30) then fadd r score (r 0.2)
               else if fgt rsi (Fin 70) then fsub r score (r 0.2)
               else score);
            score =
              (if dict_get indicators (S ''price_vs_ma20'') PNone = PStr (S ''Above'')
               then fadd r score (r 0.1) else fsub r score (r 0.1));
            score =
              (if dict_get indicators (S ''price_vs_ma50'') PNone = PStr (S ''Above'')
               then fadd r score (r 0.1) else fsub r score (r 0.1))
        in
        case val_get (dict_get indicators (S ''volume_analysis'') (PDict []))
               (S ''volume_signal'') (PStr (S ''Normal'')) of
          Inl e \<Rightarrow> Inl e
        | Inr volume_signal \<Rightarrow>
        let score =
              (if volume_signal = PStr (S ''High'') then fadd r score (r 0.05) else score);
            overall_trend = dict_get indicators (S ''overall_trend'') (PStr (S ''Neutral''));
            score =
              (if overall_trend = PStr (S ''Bullish'') then fadd r score (r 0.15)
               else if overall_trend = PStr (S ''Bearish'') then fsub r score (r 0.15)
               else score)
        in Inr (py_max (Fin 0) (py_min (Fin 1) score)))"

text \<open>\<open>_calculate_fundamental_score\<close>; \<open>None\<close> is the argument \<open>None\<close>.\<close>

definition calculate_fundamental_score :: "rounding \<Rightarrow> pydict option \<Rightarrow> exn + pyfloat" where
  "calculate_fundamental_score r fundamental_data =
     (case fundamental_data of
        None \<Rightarrow> Inr (Fin 0.5)
      | Some fd \<Rightarrow>
        if fd = [] then Inr (Fin 0.5)
        else
          let score = Fin 0.5;
              pe_ratio = dict_get fd (S ''pe_ratio'') PNone
          in
          case (if truthy pe_ratio then
                  (case as_num pe_ratio of
                     Inl e \<Rightarrow> Inl e
                   | Inr pe \<Rightarrow>
                       Inr (if fle (Fin 10) pe \<and> fle pe (Fin 20) then fadd r score (r 0.2)
                            else if flt pe (Fin 10) then fadd r score (r 0.1)
                            else if fgt pe (Fin 30) then fsub r score (r 0.1)
                            else score))
                else Inr score) of
            Inl e \<Rightarrow> Inl e
          | Inr score \<Rightarrow>
          case as_num (dict_get fd (S ''market_cap'') (PNum (Fin 0))) of
            Inl e \<Rightarrow> Inl e
          | Inr market_cap \<Rightarrow>
          let score =
                (if fgt market_cap (Fin 10000000000) then fadd r score (r 0.05) else score);
              sector = dict_get fd (S ''sector'') (PStr []);
              growth_sectors =
                [PStr (S ''Technology''), PStr (S ''Healthcare''),
                 PStr (S ''Consumer Discretionary'')];
              score = (if sector \<in> set growth_sectors then fadd r score (r 0.1) else score)
          in Inr (py_max (Fin 0) (py_min (Fin 1) score)))"

text \<open>\<open>_determine_action\<close>. The thresholds with a fractional part are the floats of
  their literals.\<close>

definition determine_action ::
  "rounding \<Rightarrow> pyfloat \<Rightarrow> pyfloat \<Rightarrow> pyfloat \<Rightarrow> InvestmentAction \<times> real" where
  "determine_action r expected_return combined_score sentiment_score =
     (if fgt expected_return (Fin 10) \<and> fgt combined_score (r 0.7)
           \<and> fgt sentiment_score (r 0.2) then
        (STRONG_BUY, 0.9)
      else if fgt expected_return (Fin 5) \<and> fgt combined_score (r 0.6) then
        (BUY, 0.8)
      else if flt expected_return (Fin (- 10))
           \<or> (flt combined_score (r 0.3) \<and> flt sentiment_score (fneg (r 0.3))) then
        (SELL, 0.8)
      else if flt expected_return (Fin (- 5)) \<or> flt combined_score (r 0.4) then
        (WEAK_SELL, 0.7)
      else
        (HOLD, if flt (fabs expected_return) (Fin 3) then 0.6 else 0.5))"

text \<open>
  \<open>_calculate_target_price\<close>. \<open>mean\<close> is \<open>np.mean\<close> on a non-empty list of floats, a
  library function whose order of additions is its own; it is a parameter.
\<close>

definition calculate_target_price ::
  "rounding \<Rightarrow> (real list \<Rightarrow> pyfloat) \<Rightarrow> real \<Rightarrow> real list \<Rightarrow> pydict \<Rightarrow> exn + pyfloat" where
  "calculate_target_price r mean current_price predicted_prices indicators =
     (if predicted_prices = [] then Inr (Fin current_price)
      else
        let base_target = mean predicted_prices;
            adjustment_factor = Fin 1;
            trend = dict_get indicators (S ''overall_trend'') PNone;
            adjustment_factor =
              (if trend = PStr (S ''Bullish'') then fmul r adjustment_factor (r 1.05)
               else if trend = PStr (S ''Bearish'') then fmul r adjustment_factor (r 0.95)
               else adjustment_factor)
        in
        case as_num (dict_get indicators (S ''volatility'') (PNum (Fin 0))) of
          Inl e \<Rightarrow> Inl e
        | Inr volatility \<Rightarrow>
        let adjustment_factor =
              (if fgt volatility (fmul r (Fin current_price) (r 0.02))
               then fmul r adjustment_factor (r 0.98)
               else adjustment_factor)
        in Inr (fmul r base_target adjustment_factor))"

text \<open>\<open>_assess_risk_level\<close>. The risk score only adds 2, 1 and 0.5, which is exact.\<close>

definition assess_risk_level :: "rounding \<Rightarrow> pydict \<Rightarrow> pydict option \<Rightarrow> exn + pystr" where
  "assess_risk_level r technical_indicators fundamental_data =
     (let risk_score = (0::real) in
      case as_num (dict_get technical_indicators (S ''current_price'') (PNum (Fin 100))) of
        Inl e \<Rightarrow> Inl e
      | Inr current_price \<Rightarrow>
      case (if fgt current_price (Fin 0) then
              (case as_num (dict_get technical_indicators (S ''volatility'') (PNum (Fin 0))) of
                 Inl e \<Rightarrow> Inl e
               | Inr volatility \<Rightarrow> Inr (np_div r volatility current_price))
            else Inr (Fin 0)) of
        Inl e \<Rightarrow> Inl e
      | Inr vol_ratio \<Rightarrow>
      let risk_score =
            (if fgt vol_ratio (r 0.03) then risk_score + 2
             else if fgt vol_ratio (r 0.02) then risk_score + 1
             else risk_score)
      in
      case as_num (dict_get technical_indicators (S ''rsi'') (PNum (Fin 50))) of
        Inl e \<Rightarrow> Inl e
      | Inr rsi \<Rightarrow>
      let risk_score =
            (if fgt rsi (Fin 80) \<or> flt rsi (Fin 20) then risk_score + 1 else risk_score)
      in
      case (case fundamental_data of
              None \<Rightarrow> Inr risk_score
            | Some fd \<Rightarrow>
                if fd = [] then Inr risk_score
                else
                  (case as_num (dict_get fd (S ''market_cap'') (PNum (Fin 0))) of
                     Inl e \<Rightarrow> Inl e
                   | Inr market_cap \<Rightarrow>
                       Inr (if flt market_cap (Fin 1000000000) then risk_score + 1
                            else risk_score))) of
        Inl e \<Rightarrow> Inl e
      | Inr risk_score \<Rightarrow>
      case val_get (dict_get technical_indicators (S ''volume_analysis'') (PDict []))
             (S ''volume_signal'') (PStr (S ''Normal'')) of
        Inl e \<Rightarrow> Inl e
      | Inr volume_signal \<Rightarrow>
      let risk_score =
            (if volume_signal = PStr (S ''High'') then risk_score + 0.5 else risk_score)
      in
      Inr (if 3 \<le> risk_score then S ''High''
           else if 1.5 \<le> risk_score then S ''Medium''
           else S ''Low''))"

text \<open>\<open>_generate_reasoning\<close>. \<open>fmt1\<close> is the float format \<open>:.1f\<close>, a parameter. The
  \<open>action\<close> argument is not used by the source.\<close>

definition generate_reasoning ::
  "rounding \<Rightarrow> (pyfloat \<Rightarrow> pystr) \<Rightarrow> pyfloat \<Rightarrow> real \<Rightarrow> pyfloat \<Rightarrow> pyfloat \<Rightarrow> InvestmentAction
     \<Rightarrow> pystr" where
  "generate_reasoning r fmt1 expected_return sentiment_score technical_score
       fundamental_score act =
     (let reasons =
            [if fgt expected_return (Fin 5) then
               S ''Expected '' @ fmt1 expected_return @ S ''% price increase''
             else if flt expected_return (Fin (- 5)) then
               S ''Expected '' @ fmt1 expected_return @ S ''% price decrease''
             else S ''Modest price movement expected ('' @ fmt1 expected_return @ S ''%)''];
          reasons = reasons @
            [if fgt (Fin sentiment_score) (r 0.2) then S ''positive market sentiment''
             else if flt (Fin sentiment_score) (fneg (r 0.2))
               then S ''negative market sentiment''
             else S ''neutral market sentiment''];
          reasons = reasons @
            [if fgt technical_score (r 0.6) then S ''strong technical indicators''
             else if flt technical_score (r 0.4) then S ''weak technical indicators''
             else S ''mixed technical signals''];
          reasons = reasons @
            (if fgt fundamental_score (r 0.6) then [S ''solid fundamentals'']
             else if flt fundamental_score (r 0.4) then [S ''concerning fundamentals'']
             else [])
      in S ''Recommendation based on: '' @ join (S '', '') reasons)"

text \<open>
  \<open>generate_recommendation\<close>. The prices and the sentiment score are finite floats.
  \<open>np.mean\<close> returns a NumPy scalar, so the division by \<open>current_price\<close> is NumPy's.
  The combined score is the sum, from left to right, of
  \<open>0.4 * (expected_return / 100 + 1)\<close>, \<open>0.3 * (sentiment_score + 1) / 2\<close>,
  \<open>0.2 * technical_score\<close> and \<open>0.1 * fundamental_score\<close>.
\<close>

definition generate_recommendation ::
  "rounding \<Rightarrow> (real list \<Rightarrow> pyfloat) \<Rightarrow> (pyfloat \<Rightarrow> pystr) \<Rightarrow> pystr \<Rightarrow> real \<Rightarrow> real list
     \<Rightarrow> real \<Rightarrow> pydict \<Rightarrow> pydict option \<Rightarrow> exn + InvestmentRecommendation" where
  "generate_recommendation r mean fmt1 symb current_price predicted_prices sentiment_score
       technical_indicators fundamental_data =
     (if predicted_prices = [] then
        Inr \<lparr>symbol = symb, action = HOLD, confidence = 0.5,
             target_price = Fin current_price,
             reasoning = S ''Insufficient data for recommendation'',
             risk_level = S ''Unknown'', time_horizon = S ''N/A''\<rparr>
      else
        let avg_predicted = mean predicted_prices;
            expected_return =
              fmul r (np_div r (fsub r avg_predicted (Fin current_price)) (Fin current_price))
                (Fin 100)
        in
        case calculate_technical_score r technical_indicators of
          Inl e \<Rightarrow> Inl e
        | Inr technical_score \<Rightarrow>
        case (if fundamental_data \<noteq> None \<and> fundamental_data \<noteq> Some []
              then calculate_fundamental_score r fundamental_data else Inr (Fin 0.5)) of
          Inl e \<Rightarrow> Inl e
        | Inr fundamental_score \<Rightarrow>
        let combined_score =
              fadd r (fadd r (fadd r
                (fmul r (r 0.4) (fadd r (np_div r expected_return (Fin 100)) (Fin 1)))
                (np_div r (fmul r (r 0.3) (fadd r (Fin sentiment_score) (Fin 1))) (Fin 2)))
                (fmul r (r 0.2) technical_score))
                (fmul r (r 0.1) fundamental_score);
            (act, conf) =
              determine_action r expected_return combined_score (Fin sentiment_score)
        in
        case calculate_target_price r mean current_price predicted_prices
               technical_indicators of
          Inl e \<Rightarrow> Inl e
        | Inr tp \<Rightarrow>
        case assess_risk_level r technical_indicators fundamental_data of
          Inl e \<Rightarrow> Inl e
        | Inr risk \<Rightarrow>
        Inr \<lparr>symbol = symb, action = act, confidence = conf, target_price = tp,
             reasoning = generate_reasoning r fmt1 expected_return sentiment_score
               technical_score fundamental_score act,
             risk_level = risk, time_horizon = S ''1-3 months''\<rparr>)"

section \<open>core/forecasting\_models.py\<close>

subsection \<open>The library functions used\<close>

text \<open>\<open>Series.pct_change()\<close> on finite closing prices: \<open>data / data.shift(1) - 1\<close>, the
  first entry being NaN.\<close>

fun pct_change_from :: "rounding \<Rightarrow> real \<Rightarrow> real list \<Rightarrow> pyfloat list" where
  "pct_change_from r prev [] = []"
| "pct_change_from r prev (c # cs) =
     fsub r (np_div r (Fin c) (Fin prev)) (Fin 1) # pct_change_from r c cs"

fun pct_change :: "rounding \<Rightarrow> real list \<Rightarrow> pyfloat list" where
  "pct_change r [] = []"
| "pct_change r (c # cs) = NaN # pct_change_from r c cs"

definition dropna :: "pyfloat list \<Rightarrow> pyfloat list" where
  "dropna xs = filter (\<lambda>x. x \<noteq> NaN) xs"

text \<open>
  \<open>Series.std()\<close> of a series without NaN: NaN for fewer than two values (the divisor is
  \<open>n - 1\<close>); for two values or more it is what pandas computes in floating point, the
  parameter \<open>std\<close>.
\<close>

definition pd_std :: "(pyfloat list \<Rightarrow> pyfloat) \<Rightarrow> pyfloat list \<Rightarrow> pyfloat" where
  "pd_std std xs = (if length xs < 2 then NaN else std xs)"

text \<open>A standard deviation is NaN or not negative.\<close>

definition std_nonneg :: "(pyfloat list \<Rightarrow> pyfloat) \<Rightarrow> bool" where
  "std_nonneg std \<longleftrightarrow> (\<forall>xs. std xs = NaN \<or> fle (Fin 0) (std xs))"

text \<open>\<open>Series.tail(n)\<close>.\<close>

definition tail :: "nat \<Rightarrow> 'a list \<Rightarrow> 'a list" where
  "tail n xs = drop (length xs - n) xs"

text \<open>\<open>np.mean\<close> of a non-empty array of finite floats.\<close>

definition np_mean :: "real list \<Rightarrow> real" where
  "np_mean xs = sum_list xs / real (length xs)"

text \<open>\<open>np.std\<close> of an array of finite floats: the population standard deviation.\<close>

definition np_std :: "real list \<Rightarrow> real" where
  "np_std xs = sqrt (np_mean (map (\<lambda>x. (x - np_mean xs)\<^sup>2) xs))"

text \<open>\<open>np.linspace(start, stop, num)\<close> for \<open>num > 1\<close>.\<close>

definition linspace :: "real \<Rightarrow> real \<Rightarrow> nat \<Rightarrow> real list" where
  "linspace start stop num =
     map (\<lambda>k. start + real k * ((stop - start) / real (num - 1))) [0..<num]"

text \<open>The slice \<open>xs[a:b]\<close> for \<open>0 \<le> a \<le> b\<close>.\<close>

definition slice :: "'a list \<Rightarrow> nat \<Rightarrow> nat \<Rightarrow> 'a list" where
  "slice xs a b = take (b - a) (drop a xs)"

subsection \<open>\<open>ForecastingModels\<close>\<close>

definition model_weights :: "(pystr \<times> real) list" where
  "model_weights =
     [(S ''random_forest'', 0.4), (S ''gradient_boost'', 0.4), (S ''linear'', 0.2)]"

text \<open>\<open>_prepare_features\<close>: one feature vector and one target for each index from the
  lookback to the last but one.\<close>

definition feature_vector :: "real list \<Rightarrow> nat \<Rightarrow> real list" where
  "feature_vector price_data i =
     (let lookback = 20;
          weights = map exp (linspace (- 0.5) 0 lookback);
          weighted_prices = map (\<lambda>(p, w). p * w) (zip (slice price_data (i - lookback) i) weights)
      in [np_mean weighted_prices,
          np_std weighted_prices,
          price_data ! (i - 1),
          (if 5 \<le> i then np_mean (slice price_data (i - 5) i) else price_data ! (i - 1)),
          (if 10 \<le> i then np_mean (slice price_data (i - 10) i) else price_data ! (i - 1))])"

definition prepare_features :: "real list \<Rightarrow> real list list \<times> real list" where
  "prepare_features price_data =
     (let lookback = 20;
          idx = [lookback ..< length price_data - 1]
      in (map (feature_vector price_data) idx, map (\<lambda>i. price_data ! i) idx))"

text \<open>
  The estimators and the scaler belong to scikit-learn and are parameters. A model is its
  \<open>fit\<close>: from the scaled features and the targets it gives the fitted \<open>predict\<close> for one
  feature row, and either step can raise.
\<close>

type_synonym predictor = "real list \<Rightarrow> exn + real"
type_synonym estimator = "real list list \<Rightarrow> real list \<Rightarrow> exn + predictor"
type_synonym scaler = "real list list \<Rightarrow> exn + real list list"

text \<open>The inner loop over the days: predict, record \<open>max(0, pred)\<close>, rotate the feature
  row left and overwrite its last entry with the prediction.\<close>

fun iterate_predictions :: "predictor \<Rightarrow> nat \<Rightarrow> real list \<Rightarrow> exn + real list" where
  "iterate_predictions predict 0 last_features = Inr []"
| "iterate_predictions predict (Suc n) last_features =
     (case predict last_features of
        Inl e \<Rightarrow> Inl e
      | Inr pred \<Rightarrow>
          (case last_features of
             [] \<Rightarrow> Inl IndexError
           | f # fs \<Rightarrow>
               (case iterate_predictions predict n (fs @ [pred]) of
                  Inl e \<Rightarrow> Inl e
                | Inr model_preds \<Rightarrow> Inr (max 0 pred # model_preds))))"

text \<open>The body of the \<open>try\<close> for one model, up to \<open>model_preds\<close>.\<close>

definition run_model ::
  "scaler \<Rightarrow> estimator \<Rightarrow> real list list \<Rightarrow> real list \<Rightarrow> nat \<Rightarrow> exn + real list" where
  "run_model fit_transform fit features targets days =
     (case fit_transform features of
        Inl e \<Rightarrow> Inl e
      | Inr features_scaled \<Rightarrow>
          (case fit features_scaled targets of
             Inl e \<Rightarrow> Inl e
           | Inr predict \<Rightarrow>
               if features_scaled = [] then Inl IndexError
               else iterate_predictions predict days (last features_scaled)))"

text \<open>The loop over \<open>self.models.items()\<close>: a model whose \<open>try\<close> body raises is skipped.\<close>

fun train_ensemble ::
  "scaler \<Rightarrow> (pystr \<times> estimator) list \<Rightarrow> real list list \<Rightarrow> real list \<Rightarrow> nat
     \<Rightarrow> (real list \<times> real) list" where
  "train_ensemble fit_transform [] features targets days = []"
| "train_ensemble fit_transform ((name, fit) # models) features targets days =
     (case run_model fit_transform fit features targets days of
        Inl e \<Rightarrow> train_ensemble fit_transform models features targets days
      | Inr model_preds \<Rightarrow>
          (case map_of model_weights name of
             None \<Rightarrow> train_ensemble fit_transform models features targets days
           | Some weight \<Rightarrow>
               (model_preds, weight)
                 # train_ensemble fit_transform models features targets days))"

text \<open>\<open>self.models\<close>, in the order of the dictionary.\<close>

definition models :: "estimator \<Rightarrow> estimator \<Rightarrow> estimator \<Rightarrow> (pystr \<times> estimator) list" where
  "models random_forest gradient_boost linear_regression =
     [(S ''random_forest'', random_forest), (S ''gradient_boost'', gradient_boost),
      (S ''linear'', linear_regression)]"

text \<open>\<open>_generate_ensemble_predictions\<close>; \<open>close_prices\<close> is
  \<open>market_data['hist_1y']['Close'].values\<close>.\<close>

definition generate_ensemble_predictions ::
  "scaler \<Rightarrow> estimator \<Rightarrow> estimator \<Rightarrow> estimator \<Rightarrow> real list \<Rightarrow> int \<Rightarrow> exn + real list" where
  "generate_ensemble_predictions fit_transform random_forest gradient_boost
       linear_regression close_prices days =
     (let (features, targets) = prepare_features close_prices in
      if length features < 30 then
        (if close_prices = [] then Inl IndexError
         else Inr (replicate (nat days) (last close_prices)))
      else
        let ensemble_predictions =
              train_ensemble fit_transform
                (models random_forest gradient_boost linear_regression)
                features targets (nat days)
        in
        if ensemble_predictions = [] then
          (if close_prices = [] then Inl IndexError
           else Inr (replicate (nat days) (last close_prices)))
        else
          Inr (map (\<lambda>day. sum_list (map (\<lambda>(preds, weight). weight * preds ! day)
                                      ensemble_predictions))
                 [0 ..< nat days]))"

text \<open>The values \<open>pred\<close> takes in the inner loop, before \<open>max(0, pred)\<close> is recorded: what
  the fitted model predicts for each day.\<close>

fun raw_predictions :: "predictor \<Rightarrow> nat \<Rightarrow> real list \<Rightarrow> exn + real list" where
  "raw_predictions predict 0 last_features = Inr []"
| "raw_predictions predict (Suc n) last_features =
     (case predict last_features of
        Inl e \<Rightarrow> Inl e
      | Inr pred \<Rightarrow>
          (case last_features of
             [] \<Rightarrow> Inl IndexError
           | f # fs \<Rightarrow>
               (case raw_predictions predict n (fs @ [pred]) of
                  Inl e \<Rightarrow> Inl e
                | Inr preds \<Rightarrow> Inr (pred # preds))))"

definition model_predictions ::
  "scaler \<Rightarrow> estimator \<Rightarrow> real list list \<Rightarrow> real list \<Rightarrow> nat \<Rightarrow> exn + real list" where
  "model_predictions fit_transform fit features targets days =
     (case fit_transform features of
        Inl e \<Rightarrow> Inl e
      | Inr features_scaled \<Rightarrow>
          (case fit features_scaled targets of
             Inl e \<Rightarrow> Inl e
           | Inr predict \<Rightarrow>
               if features_scaled = [] then Inl IndexError
               else raw_predictions predict days (last features_scaled)))"

text \<open>The dictionary \<open>_calculate_confidence_intervals\<close> returns.\<close>

record confidence_intervals =
  upper_bounds :: "pyfloat list"
  lower_bounds :: "pyfloat list"
  confidence_level :: real
  probability_up :: pyfloat
  probability_down :: pyfloat
  effective_volatility :: pyfloat

text \<open>
  The volatility part of \<open>_calculate_confidence_intervals\<close>: the annualised standard
  deviation of the daily returns, or 1.2 times that of the last twenty when it is larger.
  \<open>closes\<close> is \<open>market_data['hist_1y']['Close']\<close>, finite floats.
\<close>

definition effective_volatility_of ::
  "rounding \<Rightarrow> (pyfloat list \<Rightarrow> pyfloat) \<Rightarrow> real list \<Rightarrow> pyfloat" where
  "effective_volatility_of r std closes =
     (let returns = dropna (pct_change r closes);
          volatility = fmul r (pd_std std returns) (fsqrt r (Fin 252));
          recent_returns = tail 20 returns;
          recent_vol = fmul r (pd_std std recent_returns) (fsqrt r (Fin 252))
      in py_max volatility (fmul r recent_vol (r 1.2)))"

text \<open>The factors of the margin of prediction \<open>i\<close>: \<open>z_score * pred\<close> and \<open>time_vol\<close>, and
  the margin, \<open>z_score * pred * time_vol * 0.7\<close>, multiplied from left to right.\<close>

definition z_times :: "rounding \<Rightarrow> real \<Rightarrow> pyfloat" where
  "z_times r pred = fmul r (r 1.96) (Fin pred)"

definition time_vol :: "rounding \<Rightarrow> pyfloat \<Rightarrow> nat \<Rightarrow> pyfloat" where
  "time_vol r effective_vol i = fmul r effective_vol (fsqrt r (r (real (i + 1) / 252)))"

definition margin_of :: "rounding \<Rightarrow> pyfloat \<Rightarrow> nat \<Rightarrow> real \<Rightarrow> pyfloat" where
  "margin_of r effective_vol i pred =
     fmul r (fmul r (z_times r pred) (time_vol r effective_vol i)) (r 0.7)"

text \<open>
  The division \<open>(final_price - current_price) / current_price\<close>: it is Python's, and raises
  on a zero, when both prices are Python floats, and NumPy's when one of them is a NumPy
  scalar.
\<close>

definition expected_return_of :: "rounding \<Rightarrow> number \<Rightarrow> number \<Rightarrow> exn + pyfloat" where
  "expected_return_of r current_price final_price =
     (let difference = fsub r (Fin (value_of final_price)) (Fin (value_of current_price))
      in if is_numpy current_price \<or> is_numpy final_price
         then Inr (np_div r difference (Fin (value_of current_price)))
         else py_div r difference (Fin (value_of current_price)))"

text \<open>
  \<open>_calculate_confidence_intervals\<close>. The predictions are finite floats, Python's or
  NumPy's. The result \<open>None\<close> is the empty dictionary.
\<close>

definition calculate_confidence_intervals ::
  "rounding \<Rightarrow> (pyfloat list \<Rightarrow> pyfloat) \<Rightarrow> number list \<Rightarrow> real list
     \<Rightarrow> exn + confidence_intervals option" where
  "calculate_confidence_intervals r std predictions closes =
     (if predictions = [] then Inr None
      else
        let effective_vol = effective_volatility_of r std closes;
            upper = map (\<lambda>(i, pred).
                      fadd r (Fin (value_of pred)) (margin_of r effective_vol i (value_of pred)))
                      (enumerate 0 predictions);
            lower = map (\<lambda>(i, pred).
                      py_max (Fin 0)
                        (fsub r (Fin (value_of pred))
                           (margin_of r effective_vol i (value_of pred))))
                      (enumerate 0 predictions);
            current_price = hd predictions;
            final_price = last predictions
        in
        case expected_return_of r current_price final_price of
          Inl e \<Rightarrow> Inl e
        | Inr expected_return \<Rightarrow>
        let prob_up =
              fadd r (Fin 0.5) (np_div r expected_return (fmul r (Fin 2) effective_vol));
            prob_up = py_max (r 0.15) (py_min (r 0.85) prob_up)
        in
        Inr (Some \<lparr>upper_bounds = upper, lower_bounds = lower, confidence_level = 0.95,
                   probability_up = prob_up,
                   probability_down = fsub r (Fin 1) prob_up,
                   effective_volatility = effective_vol\<rparr>))"

section \<open>core/financial\_analyzer.py\<close>

text \<open>
  What the analyzer takes from the Python runtime and from libraries: the Unicode case
  mapping of \<open>str.lower\<close>, the decimal digits that \<open>\d\<close> matches, the two
  \<open>re.findall\<close> calls of the fallback answer, the iteration order of \<open>list(set(xs))\<close>,
  TextBlob's polarity, the built-in \<open>hash\<close>, and the HTTP exchange with the hosted model.
  The exchange takes the API key, the document excerpt and the question; its result is the
  status code together with the outcome of reading the first candidate's text from the
  JSON body (\<open>None\<close> when one of the membership tests fails).
\<close>

record gemini_response =
  status_code :: int
  candidate_text :: "exn + pystr option"

record analyzer_env =
  str_lower :: "pystr \<Rightarrow> pystr"
  is_decimal :: "nat \<Rightarrow> bool"
  findall_numbers :: "pystr \<Rightarrow> pystr list"
  findall_dates :: "pystr \<Rightarrow> pystr list"
  list_set :: "pystr list \<Rightarrow> pystr list"
  textblob_polarity :: "pystr \<Rightarrow> real"
  py_hash :: "pystr \<Rightarrow> int"
  gemini_post :: "pystr \<Rightarrow> pystr \<Rightarrow> pystr \<Rightarrow> exn + gemini_response"

definition positive_words :: "pystr list" where
  "positive_words =
     map S [''growth'', ''increase'', ''profit'', ''strong'', ''excellent'', ''outstanding'',
            ''improved'', ''expansion'', ''success'']"

definition negative_words :: "pystr list" where
  "negative_words =
     map S [''decline'', ''loss'', ''decrease'', ''weak'', ''poor'', ''challenging'',
            ''difficult'', ''concern'', ''risk'']"

text \<open>\<open>analyze_sentiment\<close>; the counts are the sizes of the intersections of the word set
  of the lowercased text with the two keyword sets.\<close>

definition positive_count :: "analyzer_env \<Rightarrow> pystr \<Rightarrow> nat" where
  "positive_count env text = card (set (py_split (str_lower env text)) \<inter> set positive_words)"

definition negative_count :: "analyzer_env \<Rightarrow> pystr \<Rightarrow> nat" where
  "negative_count env text = card (set (py_split (str_lower env text)) \<inter> set negative_words)"

definition analyze_sentiment :: "analyzer_env \<Rightarrow> pystr \<Rightarrow> pystr \<times> real" where
  "analyze_sentiment env text =
     (let polarity = textblob_polarity env text;
          polarity =
            (if positive_count env text > negative_count env text then max polarity 0.1
             else if negative_count env text > positive_count env text then min polarity (- 0.1)
             else polarity);
          sentiment =
            (if polarity > 0.1 then S ''Positive''
             else if polarity < - 0.1 then S ''Negative''
             else S ''Neutral'')
      in (sentiment, polarity))"

subsection \<open>The string-search fallback\<close>

definition stop_words :: "pystr list" where
  "stop_words =
     map S [''what'', ''how'', ''when'', ''where'', ''why'', ''who'', ''which'', ''the'',
            ''and'', ''or'', ''but'']"

definition question_words_of :: "analyzer_env \<Rightarrow> pystr \<Rightarrow> pystr list" where
  "question_words_of env question =
     map (strip_chars (S ''?.,!()[]''))
       (filter (\<lambda>word. 3 < length word \<and> word \<notin> set stop_words)
          (py_split (str_lower env question)))"

text \<open>The pieces between full stops, stripped, that are longer than 20 characters.\<close>

definition sentences_of :: "pystr \<Rightarrow> pystr list" where
  "sentences_of text =
     map strip (filter (\<lambda>s. strip s \<noteq> [] \<and> 20 < length (strip s)) (split_on 46 text))"

definition financial_terms :: "pystr list" where
  "financial_terms =
     map S [''million'', ''billion'', ''%'', ''quarter'', ''year'', ''revenue'', ''profit'',
            ''growth'']"

definition indicator_terms :: "pystr list" where
  "indicator_terms = map S [''important'', ''key'', ''main'', ''significant'', ''major'']"

text \<open>The body of the scoring loop for sentence \<open>i\<close> of \<open>n\<close>: \<open>None\<close> is \<open>continue\<close>.\<close>

definition score_sentence ::
  "analyzer_env \<Rightarrow> pystr list \<Rightarrow> nat \<Rightarrow> nat \<times> pystr \<Rightarrow> (pystr \<times> nat \<times> nat) option" where
  "score_sentence env question_words n = (\<lambda>(i, sentence).
     let sentence_lower = str_lower env sentence;
         matches = length (filter (\<lambda>word. contains sentence_lower word) question_words)
     in if matches = 0 then None
        else
          let score = matches * 4;
              score = (if list_ex (is_decimal env) sentence then score + 3 else score);
              score = (if list_ex (\<lambda>term. contains sentence_lower term) financial_terms
                       then score + 2 else score);
              score = (if list_ex (\<lambda>term. contains sentence_lower term) indicator_terms
                       then score + 2 else score);
              score = (if real i < real n * 0.3 then score + 1 else score)
          in Some (sentence, score, i))"

text \<open>The answer built from the non-empty list of scored sentences; the sort is stable and
  descending in the score.\<close>

definition build_answer ::
  "analyzer_env \<Rightarrow> pystr list \<Rightarrow> (pystr \<times> nat \<times> nat) list \<Rightarrow> pystr" where
  "build_answer env question_words sentence_scores =
     (let sentence_scores = sort_key (\<lambda>(s, score, pos). - int score) sentence_scores;
          top_sentences = take 5 sentence_scores;
          primary_sentence = (case top_sentences of [] \<Rightarrow> [] | (s, score, pos) # _ \<Rightarrow> s);
          top_score = (case top_sentences of [] \<Rightarrow> 0 | (s, score, pos) # _ \<Rightarrow> score);
          answer = S ''**Primary Answer:**'' @ nl @ primary_sentence;
          supporting_sentences =
            map fst (filter (\<lambda>(s, score, pos). real top_score * 0.5 \<le> real score)
                       (take 2 (drop 1 top_sentences)));
          answer =
            (if supporting_sentences \<noteq> [] then
               answer @ nl @ nl @ S ''**Supporting Information:**''
                 @ concat (map (\<lambda>(i, support). nl @ str_nat i @ S ''. '' @ support)
                             (enumerate 1 supporting_sentences))
             else answer);
          top3 = map fst (take 3 top_sentences);
          all_relevant_text = join (S '' '') top3;
          numbers = findall_numbers env all_relevant_text;
          dates = findall_dates env all_relevant_text;
          answer =
            (if numbers \<noteq> [] then
               answer @ nl @ nl @ S ''**Key Figures:** ''
                 @ join (S '', '') (take 5 (list_set env numbers))
             else answer);
          answer =
            (if dates \<noteq> [] then
               answer @ nl @ nl @ S ''**Relevant Dates:** ''
                 @ join (S '', '') (take 3 (list_set env dates))
             else answer);
          answer =
            (if 3 < length sentence_scores then
               answer @ nl @ nl @ S ''**Additional Context:** The document contains ''
                 @ str_nat (length sentence_scores)
                 @ S '' relevant sections related to your question, providing comprehensive coverage of this topic.''
             else answer);
          related_topics =
            List.map_filter
              (\<lambda>word.
                 map_option
                   (\<lambda>(sentence, score, pos).
                      if 100 < length sentence then take 100 sentence @ S ''...'' else sentence)
                   (find (\<lambda>(sentence, score, pos).
                            contains (str_lower env sentence) word \<and> sentence \<notin> set top3)
                      (take 3 (drop 3 sentence_scores))))
              question_words
      in case related_topics of
           [] \<Rightarrow> answer
         | topic # _ \<Rightarrow> answer @ nl @ nl @ S ''**Related Information:** '' @ topic)"

text \<open>\<open>_get_fallback_answer\<close>. (The list \<open>paragraphs\<close> of the source is computed and never
  used.)\<close>

definition get_fallback_answer :: "analyzer_env \<Rightarrow> pystr \<Rightarrow> pystr \<Rightarrow> pystr" where
  "get_fallback_answer env text question =
     (let question_words = question_words_of env question;
          sentences = sentences_of text
      in if sentences = [] then S ''No content available to answer the question.''
         else
           let sentence_scores =
                 List.map_filter (score_sentence env question_words (length sentences))
                   (enumerate 0 sentences)
           in if sentence_scores = [] then
                S ''I couldn'' @ apostrophe @ S ''t find specific information to answer ''
                  @ apostrophe @ question @ apostrophe
                  @ S '' in the document. The document appears to cover other topics that might be of interest.''
              else build_answer env question_words sentence_scores)"

subsection \<open>The hosted model and the cached entry point\<close>

text \<open>The analyzer's cache of answers and the log of the requests sent to the hosted model
  (API key, document excerpt, question).\<close>

record qa_world =
  qa_cache :: "pystr cache_state"
  requests_sent :: "(pystr \<times> pystr \<times> pystr) list"

definition no_response :: pystr where
  "no_response =
     S ''I couldn'' @ apostrophe
       @ S ''t generate a response. Please try rephrasing your question.''"

text \<open>\<open>_get_ai_answer\<close>: one request; any exception falls back to the string search.\<close>

definition get_ai_answer ::
  "analyzer_env \<Rightarrow> pystr \<Rightarrow> pystr \<Rightarrow> pystr \<Rightarrow> qa_world \<Rightarrow> pystr \<times> qa_world" where
  "get_ai_answer env key text question w =
     (let w = w\<lparr>requests_sent := requests_sent w @ [(key, take 8000 text, question)]\<rparr> in
      case gemini_post env key (take 8000 text) question of
        Inl e \<Rightarrow> (get_fallback_answer env text question, w)
      | Inr response \<Rightarrow>
          if status_code response = 200 then
            (case candidate_text response of
               Inl e \<Rightarrow> (get_fallback_answer env text question, w)
             | Inr (Some t) \<Rightarrow> (strip t, w)
             | Inr None \<Rightarrow> (no_response, w))
          else (no_response, w))"

text \<open>
  \<open>ai_powered_qa\<close>. \<open>api_key\<close> is \<open>self.api_key\<close>, what \<open>os.getenv('OPENAI_API_KEY')\<close>
  gave when the analyzer was made (\<open>None\<close> when the variable is unset); \<open>now_get\<close> and
  \<open>now_set\<close> are the clock readings of the two cache calls. The cache parameters are the
  pair of \<open>hash(text[:1000])\<close> and the question.
\<close>

definition ai_powered_qa ::
  "analyzer_env \<Rightarrow> pystr option \<Rightarrow> (int \<times> pystr \<Rightarrow> exn + pystr) \<Rightarrow> (pystr \<Rightarrow> pystr)
     \<Rightarrow> int \<Rightarrow> int \<Rightarrow> pystr \<Rightarrow> pystr \<Rightarrow> qa_world \<Rightarrow> exn + (pystr \<times> qa_world)" where
  "ai_powered_qa env api_key json_dumps md5_hexdigest now_get now_set text question w =
     (let cache_params = (py_hash env (take 1000 text), question) in
      case CacheManager_get json_dumps md5_hexdigest now_get (S ''qa_response'') cache_params 60
             (qa_cache w) of
        Inl e \<Rightarrow> Inl e
      | Inr (Some cached_answer, c) \<Rightarrow> Inr (cached_answer, w\<lparr>qa_cache := c\<rparr>)
      | Inr (None, c) \<Rightarrow>
          let w = w\<lparr>qa_cache := c\<rparr>;
              (answer, w) =
                (case api_key of
                   None \<Rightarrow> (get_fallback_answer env text question, w)
                 | Some key \<Rightarrow>
                     if key \<noteq> [] \<and> key \<noteq> S ''demo''
                     then get_ai_answer env key text question w
                     else (get_fallback_answer env text question, w))
          in
          case CacheManager_set json_dumps md5_hexdigest now_set (S ''qa_response'')
                 cache_params (Some answer) (qa_cache w) of
            Inl e \<Rightarrow> Inl e
          | Inr c \<Rightarrow> Inr (answer, w\<lparr>qa_cache := c\<rparr>))"

section \<open>file\_processor.py\<close>

subsection \<open>Dictionaries that are updated\<close>

text \<open>\<open>d[k] = v\<close>: an existing key keeps its place, a new key goes to the end.\<close>

fun dict_set :: "pydict \<Rightarrow> pystr \<Rightarrow> pyval \<Rightarrow> pydict" where
  "dict_set [] k v = [(k, v)]"
| "dict_set ((k', v') # d) k v =
     (if k' = k then (k, v) # d else (k', v') # dict_set d k v)"

text \<open>\<open>d.update(u)\<close>.\<close>

definition dict_update :: "pydict \<Rightarrow> pydict \<Rightarrow> pydict" where
  "dict_update d u = foldl (\<lambda>d (k, v). dict_set d k v) d u"

subsection \<open>The uploaded file and the parsing libraries\<close>

text \<open>
  The uploaded file: its name, its declared MIME type, its bytes (\<open>getvalue()\<close>), and what
  \<open>read()\<close> gives, which is the bytes unless the stream raises.
\<close>

record uploaded_file =
  file_name :: pystr
  file_type :: pystr
  getvalue :: "nat list"
  read_bytes :: "exn + nat list"

text \<open>A page of a PDF as pdfplumber shows it: the extracted text (\<open>None\<close> when there is
  none), the tables as rows of cells (a cell can be \<open>None\<close>), and the number of images when
  the page has the attribute.\<close>

record pdf_page =
  page_text :: "pystr option"
  page_tables :: "pystr option list list list"
  page_images :: "nat option"

text \<open>A Word document: the paragraph texts, the tables as rows of cell texts, and for each
  section the paragraph texts of its header and footer; reading either can raise.\<close>

record docx_section =
  section_header :: "exn + pystr list option"
  section_footer :: "exn + pystr list option"

record docx_document =
  doc_paragraphs :: "pystr list"
  doc_tables :: "pystr list list list"
  doc_sections :: "docx_section list"

text \<open>A shape of a slide: its text when it has the attribute, its table when
  \<open>has_table\<close> holds.\<close>

record pptx_shape =
  shape_text :: "pystr option"
  shape_table :: "pystr list list option"

text \<open>The result of \<open>Series.describe()\<close> for a numeric column.\<close>

record describe_stats =
  stat_count :: pyfloat
  stat_mean :: pyfloat
  stat_std :: pyfloat
  stat_min :: pyfloat
  stat_max :: pyfloat

text \<open>
  A data frame: the column names and the data types as \<open>str\<close> shows them, the rows of
  cells (\<open>None\<close> for a missing value, otherwise the cell as \<open>str\<close> shows it), and the numeric
  columns with their statistics. Its shape is the number of rows and the number of columns.
\<close>

record dataframe =
  df_columns :: "pystr list"
  df_dtypes :: "pystr list"
  df_cells :: "pystr option list list"
  df_numeric :: "(pystr \<times> describe_stats) list"

record json_data =
  json_type_name :: pystr
  json_dumps_indent :: pystr

record libs =
  utf8_decode :: "nat list \<Rightarrow> pystr option"
  pdfplumber_open :: "uploaded_file \<Rightarrow> exn + pdf_page list"
  docx_Document :: "uploaded_file \<Rightarrow> exn + docx_document"
  pptx_Presentation :: "uploaded_file \<Rightarrow> exn + pptx_shape list list"
  pd_read_excel :: "uploaded_file \<Rightarrow> exn + (pystr \<times> dataframe) list"
  pd_read_csv :: "uploaded_file \<Rightarrow> exn + dataframe"
  json_load :: "uploaded_file \<Rightarrow> exn + json_data"
  ET_fromstring :: "pystr \<Rightarrow> exn + pystr"
  str_float :: "pyfloat \<Rightarrow> pystr"
  fmt2 :: "pyfloat \<Rightarrow> pystr"
  fmt4 :: "pyfloat \<Rightarrow> pystr"

subsection \<open>\<open>AdvancedFileProcessor\<close>\<close>

definition format_entry :: "string \<Rightarrow> nat \<Rightarrow> pyval" where
  "format_entry n icon = PDict [(S ''name'', PStr (S n)), (S ''icon'', PStr [icon])]"

definition supported_formats :: pydict where
  "supported_formats =
     [(S ''text/plain'', format_entry ''Text File'' 128196),
      (S ''application/pdf'', format_entry ''PDF Document'' 128213),
      (S ''application/vnd.openxmlformats-officedocument.wordprocessingml.document'',
         format_entry ''Word Document'' 128216),
      (S ''application/vnd.openxmlformats-officedocument.presentationml.presentation'',
         format_entry ''PowerPoint Presentation'' 128202),
      (S ''application/vnd.openxmlformats-officedocument.spreadsheetml.sheet'',
         format_entry ''Excel Spreadsheet'' 128215),
      (S ''application/vnd.ms-excel'', format_entry ''Excel Spreadsheet (Legacy)'' 128215),
      (S ''text/csv'', format_entry ''CSV File'' 128203),
      (S ''application/json'', format_entry ''JSON File'' 128295),
      (S ''application/xml'', format_entry ''XML File'' 128295),
      (S ''text/xml'', format_entry ''XML File'' 128295)]"

text \<open>\<open>get_file_info\<close>. The size in megabytes is the quotient by \<open>2 ^ 20\<close>, which a binary
  format represents without rounding.\<close>

definition get_file_info :: "uploaded_file \<Rightarrow> pydict" where
  "get_file_info f =
     [(S ''name'', PStr (file_name f)),
      (S ''type'', PStr (file_type f)),
      (S ''size_bytes'', PInt (int (length (getvalue f)))),
      (S ''size_mb'', PNum (Fin (real (length (getvalue f)) / (1024 * 1024)))),
      (S ''format_info'',
         dict_get supported_formats (file_type f) (format_entry ''Unknown'' 10067))]"

text \<open>The two counts every routine puts into its metadata.\<close>

definition count_entries :: "pystr \<Rightarrow> pydict" where
  "count_entries content =
     [(S ''characters'', PInt (int (length content))),
      (S ''words'', PInt (int (length (py_split content))))]"

type_synonym extraction = "pystr option \<times> pydict option"

text \<open>\<open>_process_text\<close>. Only a \<open>UnicodeDecodeError\<close> is caught by the outer handler; what
  \<open>read()\<close> raises in the first attempt leaves the routine. Latin-1 maps every byte to the
  code point of the same number.\<close>

definition text_metadata :: "string \<Rightarrow> pystr \<Rightarrow> pydict" where
  "text_metadata encoding content =
     [(S ''file_type'', PStr (S ''text'')),
      (S ''encoding'', PStr (S encoding)),
      (S ''lines'', PInt (int (length (split_on 10 content))))]
     @ count_entries content"

definition process_text :: "libs \<Rightarrow> uploaded_file \<Rightarrow> exn + extraction" where
  "process_text l f =
     (case read_bytes f of
        Inl e \<Rightarrow> Inl e
      | Inr bytes \<Rightarrow>
          (case utf8_decode l bytes of
             Some content \<Rightarrow> Inr (Some content, Some (text_metadata ''utf-8'' content))
           | None \<Rightarrow>
               (case read_bytes f of
                  Inl e \<Rightarrow> Inr (None, None)
                | Inr bytes \<Rightarrow> Inr (Some bytes, Some (text_metadata ''latin-1'' bytes)))))"

text \<open>\<open>_process_pdf\<close>: the text of one table and of one page, then the routine.\<close>

definition pdf_table_content :: "nat \<Rightarrow> nat \<times> pystr option list list \<Rightarrow> pystr" where
  "pdf_table_content i = (\<lambda>(j, table).
     nl @ S ''--- Table '' @ str_nat (j + 1) @ S '' on Page '' @ str_nat (i + 1) @ S '' ---''
       @ nl
       @ concat (map (\<lambda>row.
           if row \<noteq> [] then
             join (S '' | '') (map (\<lambda>cell. case cell of None \<Rightarrow> [] | Some c \<Rightarrow> c) row) @ nl
           else []) table))"

definition pdf_page_content :: "nat \<times> pdf_page \<Rightarrow> pystr" where
  "pdf_page_content = (\<lambda>(i, page).
     (case page_text page of
        None \<Rightarrow> []
      | Some t \<Rightarrow>
          if t \<noteq> [] then nl @ S ''--- Page '' @ str_nat (i + 1) @ S '' ---'' @ nl @ t @ nl
          else [])
     @ concat (map (pdf_table_content i) (enumerate 0 (page_tables page))))"

definition process_pdf :: "libs \<Rightarrow> uploaded_file \<Rightarrow> exn + extraction" where
  "process_pdf l f =
     (case pdfplumber_open l f of
        Inl e \<Rightarrow> Inr (None, None)
      | Inr pages \<Rightarrow>
          let page_count = length pages;
              content = concat (map pdf_page_content (enumerate 0 pages));
              tables_found = sum_list (map (\<lambda>page. length (page_tables page)) pages);
              images_found =
                sum_list (map (\<lambda>page. case page_images page of None \<Rightarrow> 0 | Some n \<Rightarrow> n) pages);
              metadata =
                [(S ''file_type'', PStr (S ''pdf'')),
                 (S ''pages'', PInt (int page_count)),
                 (S ''tables'', PInt (int tables_found)),
                 (S ''images'', PInt (int images_found))]
                @ count_entries content
          in Inr (Some content, Some metadata))"

text \<open>A table of cell texts as the Word and PowerPoint routines print it: the stripped
  cells of a row joined, rows that are blank left out.\<close>

definition table_rows_content :: "pystr list list \<Rightarrow> pystr" where
  "table_rows_content rows =
     concat (map (\<lambda>row.
       let row_text = join (S '' | '') (map strip row)
       in if strip row_text \<noteq> [] then row_text @ nl else []) rows)"

text \<open>The loop over the sections inside the inner \<open>try\<close> of \<open>_process_docx\<close>: an exception
  ends the loop and keeps what was added so far.\<close>

fun docx_sections_content :: "docx_section list \<Rightarrow> pystr \<Rightarrow> pystr" where
  "docx_sections_content [] content = content"
| "docx_sections_content (sec # secs) content =
     (case section_header sec of
        Inl e \<Rightarrow> content
      | Inr header \<Rightarrow>
          let content =
                (case header of
                   None \<Rightarrow> content
                 | Some ps \<Rightarrow>
                     if strip (concat ps) \<noteq> []
                     then S ''HEADER: '' @ concat ps @ nl @ content
                     else content)
          in
          case section_footer sec of
            Inl e \<Rightarrow> content
          | Inr footer \<Rightarrow>
              let content =
                    (case footer of
                       None \<Rightarrow> content
                     | Some ps \<Rightarrow>
                         if strip (concat ps) \<noteq> []
                         then content @ nl @ S ''FOOTER: '' @ concat ps
                         else content)
              in docx_sections_content secs content)"

definition process_docx :: "libs \<Rightarrow> uploaded_file \<Rightarrow> exn + extraction" where
  "process_docx l f =
     (case docx_Document l f of
        Inl e \<Rightarrow> Inr (None, None)
      | Inr doc \<Rightarrow>
          let kept = filter (\<lambda>t. strip t \<noteq> []) (doc_paragraphs doc);
              content = concat (map (\<lambda>t. t @ nl) kept);
              paragraph_count = length kept;
              table_count = length (doc_tables doc);
              content = content @
                concat (map (\<lambda>(i, table).
                          nl @ S ''--- Table '' @ str_nat (i + 1) @ S '' ---'' @ nl
                            @ table_rows_content table)
                        (enumerate 0 (doc_tables doc)));
              content = docx_sections_content (doc_sections doc) content;
              metadata =
                [(S ''file_type'', PStr (S ''docx'')),
                 (S ''paragraphs'', PInt (int paragraph_count)),
                 (S ''tables'', PInt (int table_count)),
                 (S ''sections'', PInt (int (length (doc_sections doc))))]
                @ count_entries content
          in Inr (Some content, Some metadata))"

text \<open>\<open>_process_pptx\<close>: the shapes of a slide, with the running number of tables, and the
  slides, numbered from 1, with the running content and the running numbers of shapes and
  tables.\<close>

fun pptx_shapes_content :: "pptx_shape list \<Rightarrow> pystr \<times> nat \<Rightarrow> pystr \<times> nat" where
  "pptx_shapes_content [] (content, tables_found) = (content, tables_found)"
| "pptx_shapes_content (shape # shapes) (content, tables_found) =
     (let content =
            (case shape_text shape of
               None \<Rightarrow> content
             | Some t \<Rightarrow>
                 if strip t \<noteq> [] then content @ S ''[Text Box]: '' @ t @ nl else content)
      in case shape_table shape of
           None \<Rightarrow> pptx_shapes_content shapes (content, tables_found)
         | Some rows \<Rightarrow>
             pptx_shapes_content shapes
               (content @ S ''[Table '' @ str_nat (tables_found + 1) @ S '']:'' @ nl
                  @ table_rows_content rows @ nl,
                tables_found + 1))"

fun pptx_slides_content ::
  "nat \<Rightarrow> pptx_shape list list \<Rightarrow> pystr \<times> nat \<times> nat \<Rightarrow> pystr \<times> nat \<times> nat" where
  "pptx_slides_content i [] acc = acc"
| "pptx_slides_content i (slide # slides) (content, total_shapes, tables_found) =
     (let content = content @ nl @ S ''=== SLIDE '' @ str_nat i @ S '' ==='' @ nl;
          (content, tables_found) = pptx_shapes_content slide (content, tables_found);
          slide_shapes = length slide;
          content = content @ S ''[Slide '' @ str_nat i @ S '' contains ''
                      @ str_nat slide_shapes @ S '' elements]'' @ nl
      in pptx_slides_content (i + 1) slides
           (content, total_shapes + slide_shapes, tables_found))"

definition process_pptx :: "libs \<Rightarrow> uploaded_file \<Rightarrow> exn + extraction" where
  "process_pptx l f =
     (case pptx_Presentation l f of
        Inl e \<Rightarrow> Inr (None, None)
      | Inr slides \<Rightarrow>
          let slide_count = length slides;
              (content, total_shapes, tables_found) = pptx_slides_content 1 slides ([], 0, 0);
              metadata =
                [(S ''file_type'', PStr (S ''pptx'')),
                 (S ''slides'', PInt (int slide_count)),
                 (S ''total_shapes'', PInt (int total_shapes)),
                 (S ''tables'', PInt (int tables_found))]
                @ count_entries content
          in Inr (Some content, Some metadata))"

text \<open>The sample rows both spreadsheet routines print: for each of the first rows the
  cells that are present, as \<open>column: value\<close>, joined; a row without any is left out.\<close>

definition sample_rows_content :: "nat \<Rightarrow> dataframe \<Rightarrow> pystr" where
  "sample_rows_content sample_size df =
     concat (map (\<lambda>row.
       let row_data =
             List.map_filter
               (\<lambda>(col, val). map_option (\<lambda>v. col @ S '': '' @ v) val)
               (zip (df_columns df) row)
       in if row_data \<noteq> [] then join (S '' | '') row_data @ nl else [])
       (take sample_size (df_cells df)))"

definition times_sign :: pystr where
  "times_sign = [215]"

definition dimensions_line :: "dataframe \<Rightarrow> pystr" where
  "dimensions_line df =
     S ''Dimensions: '' @ str_nat (length (df_cells df)) @ S '' rows '' @ times_sign @ S '' ''
       @ str_nat (length (df_columns df)) @ S '' columns'' @ nl"

text \<open>\<open>df.empty\<close>: an axis of length zero.\<close>

definition df_empty :: "dataframe \<Rightarrow> bool" where
  "df_empty df = (df_cells df = [] \<or> df_columns df = [])"

text \<open>\<open>_process_excel\<close>: the text of one sheet, then the routine.\<close>

definition excel_sheet_content :: "libs \<Rightarrow> pystr \<times> dataframe \<Rightarrow> pystr" where
  "excel_sheet_content l = (\<lambda>(sheet_name, df).
     nl @ S ''=== SHEET: '' @ sheet_name @ S '' ==='' @ nl
     @ (if \<not> df_empty df then
          dimensions_line df
          @ S ''Columns: '' @ join (S '', '') (df_columns df) @ nl @ nl
          @ (if df_numeric df \<noteq> [] then
               S ''NUMERIC ANALYSIS:'' @ nl
               @ concat (map (\<lambda>(col, stats).
                   col @ S '': Mean='' @ fmt2 l (stat_mean stats)
                     @ S '', Std='' @ fmt2 l (stat_std stats)
                     @ S '', Range=['' @ fmt2 l (stat_min stats) @ S '', ''
                     @ fmt2 l (stat_max stats) @ S '']'' @ nl) (df_numeric df))
               @ nl
             else [])
          @ S ''SAMPLE DATA:'' @ nl
          @ (let sample_size = min 20 (length (df_cells df)) in
             sample_rows_content sample_size df
             @ (if sample_size < length (df_cells df) then
                  S ''... ('' @ str_nat (length (df_cells df) - sample_size)
                    @ S '' more rows)'' @ nl
                else []))
        else S ''Empty sheet'' @ nl)
     @ nl)"

definition process_excel :: "libs \<Rightarrow> uploaded_file \<Rightarrow> exn + extraction" where
  "process_excel l f =
     (case pd_read_excel l f of
        Inl e \<Rightarrow> Inr (None, None)
      | Inr excel_data \<Rightarrow>
          let content = concat (map (excel_sheet_content l) excel_data);
              filled = filter (\<lambda>(sheet_name, df). \<not> df_empty df) excel_data;
              total_rows = sum_list (map (\<lambda>(sheet_name, df). length (df_cells df)) filled);
              total_cols = sum_list (map (\<lambda>(sheet_name, df). length (df_columns df)) filled);
              numeric_cols = sum_list (map (\<lambda>(sheet_name, df). length (df_numeric df)) filled);
              metadata =
                [(S ''file_type'', PStr (S ''excel'')),
                 (S ''sheets'', PInt (int (length excel_data))),
                 (S ''total_rows'', PInt (int total_rows)),
                 (S ''total_columns'', PInt (int total_cols)),
                 (S ''numeric_columns'', PInt (int numeric_cols))]
                @ count_entries content
          in Inr (Some content, Some metadata))"

text \<open>\<open>_process_csv\<close>.\<close>

definition csv_content :: "libs \<Rightarrow> dataframe \<Rightarrow> pystr" where
  "csv_content l df =
     S ''CSV FILE ANALYSIS'' @ nl @ replicate 50 61 @ nl @ nl
     @ dimensions_line df
     @ S ''Columns: '' @ join (S '', '') (df_columns df) @ nl @ nl
     @ S ''DATA TYPES:'' @ nl
     @ concat (map (\<lambda>(col, dtype). col @ S '': '' @ dtype @ nl)
                 (zip (df_columns df) (df_dtypes df)))
     @ nl
     @ (if df_numeric df \<noteq> [] then
          S ''STATISTICAL SUMMARY:'' @ nl
          @ concat (map (\<lambda>(col, stats).
              nl @ col @ S '':'' @ nl
              @ S ''  Count: '' @ str_float l (stat_count stats) @ nl
              @ S ''  Mean: '' @ fmt4 l (stat_mean stats) @ nl
              @ S ''  Std: '' @ fmt4 l (stat_std stats) @ nl
              @ S ''  Min: '' @ fmt4 l (stat_min stats) @ nl
              @ S ''  Max: '' @ fmt4 l (stat_max stats) @ nl) (df_numeric df))
          @ nl
        else [])
     @ S ''SAMPLE DATA (First 30 rows):'' @ nl
     @ (let sample_size = min 30 (length (df_cells df)) in
        sample_rows_content sample_size df
        @ (if sample_size < length (df_cells df) then
             nl @ S ''... ('' @ str_nat (length (df_cells df) - sample_size)
               @ S '' more rows)'' @ nl
           else []))"

definition process_csv :: "libs \<Rightarrow> uploaded_file \<Rightarrow> exn + extraction" where
  "process_csv l f =
     (case pd_read_csv l f of
        Inl e \<Rightarrow> Inr (None, None)
      | Inr df \<Rightarrow>
          let content = csv_content l df;
              rows = length (df_cells df);
              cols = length (df_columns df);
              metadata =
                [(S ''file_type'', PStr (S ''csv'')),
                 (S ''rows'', PInt (int rows)),
                 (S ''columns'', PInt (int cols)),
                 (S ''numeric_columns'', PInt (int (length (df_numeric df)))),
                 (S ''missing_values'',
                    PInt (int (length (filter (\<lambda>c. c = None) (concat (df_cells df))))))]
                @ count_entries content
          in Inr (Some content, Some metadata))"

text \<open>\<open>_process_json\<close>.\<close>

definition process_json :: "libs \<Rightarrow> uploaded_file \<Rightarrow> exn + extraction" where
  "process_json l f =
     (case json_load l f of
        Inl e \<Rightarrow> Inr (None, None)
      | Inr d \<Rightarrow>
          let content = S ''JSON FILE ANALYSIS'' @ nl @ replicate 50 61 @ nl @ nl
                          @ json_dumps_indent d;
              metadata =
                [(S ''file_type'', PStr (S ''json'')),
                 (S ''structure'', PStr (json_type_name d))]
                @ count_entries content
          in Inr (Some content, Some metadata))"

text \<open>\<open>_process_xml\<close>.\<close>

definition process_xml :: "libs \<Rightarrow> uploaded_file \<Rightarrow> exn + extraction" where
  "process_xml l f =
     (case read_bytes f of
        Inl e \<Rightarrow> Inr (None, None)
      | Inr content_bytes \<Rightarrow>
          (case utf8_decode l content_bytes of
             None \<Rightarrow> Inr (None, None)
           | Some content_str \<Rightarrow>
               (case ET_fromstring l content_str of
                  Inl e \<Rightarrow> Inr (None, None)
                | Inr root_tag \<Rightarrow>
                    let content = S ''XML FILE ANALYSIS'' @ nl @ replicate 50 61 @ nl @ nl
                                    @ S ''Root Element: '' @ root_tag @ nl @ nl
                                    @ S ''XML Content:'' @ nl
                                    @ content_str;
                        metadata =
                          [(S ''file_type'', PStr (S ''xml'')),
                           (S ''root_element'', PStr root_tag)]
                          @ count_entries content
                    in Inr (Some content, Some metadata))))"

text \<open>The dispatch table of \<open>process_file\<close>.\<close>

definition processors :: "libs \<Rightarrow> (pystr \<times> (uploaded_file \<Rightarrow> exn + extraction)) list" where
  "processors l =
     [(S ''text/plain'', process_text l),
      (S ''application/pdf'', process_pdf l),
      (S ''application/vnd.openxmlformats-officedocument.wordprocessingml.document'',
         process_docx l),
      (S ''application/vnd.openxmlformats-officedocument.presentationml.presentation'',
         process_pptx l),
      (S ''application/vnd.openxmlformats-officedocument.spreadsheetml.sheet'',
         process_excel l),
      (S ''application/vnd.ms-excel'', process_excel l),
      (S ''text/csv'', process_csv l),
      (S ''application/json'', process_json l),
      (S ''application/xml'', process_xml l),
      (S ''text/xml'', process_xml l)]"

text \<open>
  \<open>process_file\<close>. Every exception is caught and gives \<open>(None, None)\<close>: the one a routine
  lets out, and the \<open>AttributeError\<close> of \<open>metadata.update\<close> on a metadata of \<open>None\<close>.
\<close>

definition process_file :: "libs \<Rightarrow> uploaded_file \<Rightarrow> extraction" where
  "process_file l f =
     (let file_info = get_file_info f in
      case map_of (processors l) (file_type f) of
        None \<Rightarrow> (None, None)
      | Some processor \<Rightarrow>
          (case processor f of
             Inl e \<Rightarrow> (None, None)
           | Inr (content, metadata) \<Rightarrow>
               (case content of
                  None \<Rightarrow> (None, None)
                | Some c \<Rightarrow>
                    if c = [] then (None, None)
                    else
                      (case metadata of
                         None \<Rightarrow> (None, None)
                       | Some m \<Rightarrow> (Some c, Some (dict_update m file_info))))))"

text \<open>A metadata dictionary whose two counts agree with a content string.\<close>

definition counted :: "pystr \<Rightarrow> pydict \<Rightarrow> bool" where
  "counted content m \<longleftrightarrow>
     map_of m (S ''words'') = Some (PInt (int (length (py_split content)))) \<and>
     map_of m (S ''characters'') = Some (PInt (int (length content)))"

section \<open>Example inputs\<close>

text \<open>An empty cache outside a Streamlit session, and the entry one \<open>set\<close> leaves in it.\<close>

definition empty_cache :: "'v cache_state" where
  "empty_cache = \<lparr>cache_store = Map.empty, use_session_state = False,
     performance_monitor = None\<rparr>"

definition one_entry_cache :: "nat cache_state" where
  "one_entry_cache = empty_cache\<lparr>cache_store :=
     (cache_store empty_cache)(S ''qa_q'' \<mapsto> \<lparr>data = Some 7, timestamp = 1000\<rparr>)\<rparr>"

text \<open>Fifty-one equal closing prices, enough for thirty feature rows, and an estimator
  whose fitted model predicts one constant.\<close>

definition flat_prices :: "real list" where
  "flat_prices = replicate 51 100"

definition constant_model :: "real \<Rightarrow> estimator" where
  "constant_model c = (\<lambda>features targets. Inr (\<lambda>row. Inr c))"

text \<open>\<open>str.lower\<close> on ASCII text, and an analyzer environment without network: TextBlob
  answers -0.5 for every text and the hosted model cannot be reached.\<close>

definition ascii_lower :: "pystr \<Rightarrow> pystr" where
  "ascii_lower s = map (\<lambda>c. if 65 \<le> c \<and> c \<le> 90 then c + 32 else c) s"

definition demo_env :: analyzer_env where
  "demo_env = \<lparr>str_lower = ascii_lower, is_decimal = (\<lambda>c. 48 \<le> c \<and> c \<le> 57),
     findall_numbers = (\<lambda>s. []), findall_dates = (\<lambda>s. []), list_set = remdups,
     textblob_polarity = (\<lambda>s. - 0.5), py_hash = (\<lambda>s. 0),
     gemini_post = (\<lambda>key text question. Inl LibraryError)\<rparr>"

definition fresh_world :: qa_world where
  "fresh_world = \<lparr>qa_cache = empty_cache, requests_sent = []\<rparr>"

text \<open>Libraries that read every PDF as the same two pages and every CSV as the same
  two-row table and fail on the other formats; UTF-8 decoding of ASCII bytes.\<close>

definition ascii_decode :: "nat list \<Rightarrow> pystr option" where
  "ascii_decode bytes = (if list_all (\<lambda>c. c < 128) bytes then Some bytes else None)"

definition demo_page :: pdf_page where
  "demo_page = \<lparr>page_text = Some (S ''Revenue grew''), page_tables = [],
     page_images = Some 0\<rparr>"

definition demo_df :: dataframe where
  "demo_df = \<lparr>df_columns = [S ''year'', S ''revenue''],
     df_dtypes = [S ''int64'', S ''float64''],
     df_cells = [[Some (S ''2023''), Some (S ''10.5'')], [Some (S ''2024''), None]],
     df_numeric = []\<rparr>"

definition demo_libs :: libs where
  "demo_libs = \<lparr>utf8_decode = ascii_decode,
     pdfplumber_open = (\<lambda>f. Inr [demo_page, demo_page]),
     docx_Document = (\<lambda>f. Inl LibraryError),
     pptx_Presentation = (\<lambda>f. Inl LibraryError),
     pd_read_excel = (\<lambda>f. Inl LibraryError),
     pd_read_csv = (\<lambda>f. Inr demo_df),
     json_load = (\<lambda>f. Inl LibraryError),
     ET_fromstring = (\<lambda>s. Inl LibraryError),
     str_float = (\<lambda>x. []), fmt2 = (\<lambda>x. []), fmt4 = (\<lambda>x. [])\<rparr>"

definition demo_file :: "string \<Rightarrow> uploaded_file" where
  "demo_file t = \<lparr>file_name = S ''report'', file_type = S t, getvalue = [37, 80],
     read_bytes = Inr [37, 80]\<rparr>"

definition broken_stream :: uploaded_file where
  "broken_stream = \<lparr>file_name = S ''notes'', file_type = S ''text/plain'', getvalue = [],
     read_bytes = Inl LibraryError\<rparr>"

text \<open>
  Two roundings. The first is the format that represents every real number: no rounding
  and no overflow. The second is exact within the range of binary64 and gives an infinity
  beyond its largest finite value, \<open>(2 ^ 53 - 1) * 2 ^ 971\<close>.
\<close>

definition exact_rounding :: rounding where
  "exact_rounding x = Fin x"

definition max_float :: real where
  "max_float = (2 ^ 53 - 1) * 2 ^ 971"

definition saturating_rounding :: rounding where
  "saturating_rounding x =
     (if max_float < x then PInf else if x < - max_float then NInf else Fin x)"

text \<open>The sample standard deviation (divisor \<open>n - 1\<close>) computed without rounding; NaN when a
  value is not finite.\<close>

fun fin_of :: "pyfloat \<Rightarrow> real option" where
  "fin_of (Fin x) = Some x"
| "fin_of _ = None"

fun finite_values :: "pyfloat list \<Rightarrow> real list option" where
  "finite_values [] = Some []"
| "finite_values (x # xs) =
     (case fin_of x of
        None \<Rightarrow> None
      | Some v \<Rightarrow> (case finite_values xs of None \<Rightarrow> None | Some vs \<Rightarrow> Some (v # vs)))"

definition sample_std :: "pyfloat list \<Rightarrow> pyfloat" where
  "sample_std xs =
     (case finite_values xs of
        None \<Rightarrow> NaN
      | Some vs \<Rightarrow>
          Fin (sqrt (sum_list (map (\<lambda>x. (x - np_mean vs)\<^sup>2) vs) / real (length vs - 1))))"

section \<open>Properties of the cache\<close>

lemma cache_store_track [simp]: "cache_store (track f st) = cache_store st"
  by (simp add: track_def split: option.splits)

lemma timedelta_minutes_in_range:
  "- 999999999 \<le> m div 1440 \<Longrightarrow> m div 1440 \<le> 999999999 \<Longrightarrow>
     timedelta_minutes m = Inr (m * 60000000)"
  by (simp add: timedelta_minutes_def)

lemma CacheManager_set_store:
  "CacheManager_set jd md5 t0 prefix params d st = Inr st1 \<Longrightarrow>
   \<exists>key. generate_key jd md5 prefix params = Inr key \<and>
     st1 = st\<lparr>cache_store := (cache_store st)(key \<mapsto> \<lparr>data = d, timestamp = t0\<rparr>)\<rparr>"
  by (auto simp: CacheManager_set_def split: sum.splits)

text \<open>
  C1. After \<open>set\<close> stored \<open>d\<close> at clock reading \<open>t0\<close>, a \<open>get\<close> with the same prefix and
  parameters at clock reading \<open>t1\<close> returns \<open>d\<close> when \<open>t1 - t0\<close> is strictly less than
  \<open>ttl_minutes\<close> minutes, and returns \<open>None\<close> when \<open>t1 - t0\<close> is \<open>ttl_minutes\<close> minutes or
  more. (\<open>ttl_minutes\<close> is any value that \<open>timedelta\<close> accepts.)
\<close>

theorem cache_round_trip:
  assumes "CacheManager_set jd md5 t0 prefix params d st = Inr st1"
    and "- 999999999 \<le> ttl_minutes div 1440" and "ttl_minutes div 1440 \<le> 999999999"
  shows "(t1 - t0 < ttl_minutes * 60000000 \<longrightarrow>
            (\<exists>st2. CacheManager_get jd md5 t1 prefix params ttl_minutes st1 = Inr (d, st2)))
       \<and> (ttl_minutes * 60000000 \<le> t1 - t0 \<longrightarrow>
            (\<exists>st2. CacheManager_get jd md5 t1 prefix params ttl_minutes st1 = Inr (None, st2)))"
proof -
  from CacheManager_set_store [OF assms(1)] obtain key where
    k: "generate_key jd md5 prefix params = Inr key" and
    s: "st1 = st\<lparr>cache_store := (cache_store st)(key \<mapsto> \<lparr>data = d, timestamp = t0\<rparr>)\<rparr>"
    by blast
  have td: "timedelta_minutes ttl_minutes = Inr (ttl_minutes * 60000000)"
    using assms(2,3) by (rule timedelta_minutes_in_range)
  show ?thesis
    by (simp add: CacheManager_get_def k s td)
qed

theorem cache_round_trip_witness:
  "(\<exists>st2. CacheManager_get Inr id 60000999 (S ''qa'') (S ''q'') 1 one_entry_cache
            = Inr (Some 7, st2))
   \<and> (\<exists>st2. CacheManager_get Inr id 60001000 (S ''qa'') (S ''q'') 1 one_entry_cache
            = Inr (None, st2))"
proof -
  have s: "CacheManager_set Inr id 1000 (S ''qa'') (S ''q'') (Some 7) empty_cache
             = Inr one_entry_cache"
    by (simp add: CacheManager_set_def generate_key_def one_entry_cache_def S_def)
  have a: "- 999999999 \<le> (1::int) div 1440" and b: "(1::int) div 1440 \<le> 999999999"
    by simp_all
  show ?thesis
    using cache_round_trip [OF s a b, of 60000999] cache_round_trip [OF s a b, of 60001000]
    by simp
qed

text \<open>
  C9. (i) When \<open>get\<close> finds an entry whose age is at least the TTL of that call, it returns
  \<open>None\<close> and the entry is gone from the store; a later \<open>get\<close> for the same key, at any
  time and with any TTL, returns \<open>None\<close>, also with a TTL under which the original store
  would have returned the entry's data. (ii) \<open>set\<close> binds the key derived from its
  arguments to the new data and clock reading, and leaves every other key's entry (data
  and timestamp) and the monitor as they were.
\<close>

theorem cache_get_evicts_set_frames:
  "(generate_key jd md5 prefix params = Inr key \<and> cache_store st key = Some item \<and>
    timedelta_minutes ttl_minutes = Inr ttl \<and> ttl \<le> now - timestamp item \<longrightarrow>
      (\<exists>st'. CacheManager_get jd md5 now prefix params ttl_minutes st = Inr (None, st') \<and>
         cache_store st' = (cache_store st)(key := None) \<and>
         (\<forall>now' ttl_minutes'. \<exists>st''.
            CacheManager_get jd md5 now' prefix params ttl_minutes' st' = Inr (None, st'')) \<and>
         (\<forall>now' ttl_minutes' ttl'.
            timedelta_minutes ttl_minutes' = Inr ttl' \<and> now' - timestamp item < ttl' \<longrightarrow>
            (\<exists>st''. CacheManager_get jd md5 now' prefix params ttl_minutes' st
                      = Inr (data item, st'')))))
   \<and> (generate_key jd md5 prefix params = Inr key \<longrightarrow>
      (\<exists>st1. CacheManager_set jd md5 now prefix params d st = Inr st1 \<and>
         cache_store st1 key = Some \<lparr>data = d, timestamp = now\<rparr> \<and>
         (\<forall>k. k \<noteq> key \<longrightarrow> cache_store st1 k = cache_store st k) \<and>
         use_session_state st1 = use_session_state st \<and>
         performance_monitor st1 = performance_monitor st))"
  by (simp add: CacheManager_get_def CacheManager_set_def)

theorem cache_get_evicts_set_frames_witness:
  "(\<exists>st'. CacheManager_get Inr id 120001000 (S ''qa'') (S ''q'') 1 one_entry_cache
            = Inr (None, st') \<and>
      cache_store st' = (cache_store one_entry_cache)(S ''qa_q'' := None) \<and>
      (\<exists>st''. CacheManager_get Inr id 120001000 (S ''qa'') (S ''q'') 60 st'
                = Inr (None, st'')) \<and>
      (\<exists>st''. CacheManager_get Inr id 120001000 (S ''qa'') (S ''q'') 60 one_entry_cache
                = Inr (Some 7, st'')))
   \<and> (\<exists>st1. CacheManager_set Inr id 5 (S ''fc'') (S ''q'') (Some 9) one_entry_cache = Inr st1 \<and>
        cache_store st1 (S ''qa_q'') = cache_store one_entry_cache (S ''qa_q''))"
proof -
  let ?item = "\<lparr>data = Some (7::nat), timestamp = 1000\<rparr>"
  have k: "generate_key Inr id (S ''qa'') (S ''q'') = Inr (S ''qa_q'')"
    by (simp add: generate_key_def S_def)
  have i: "cache_store one_entry_cache (S ''qa_q'') = Some ?item"
    by (simp add: one_entry_cache_def)
  have t: "timedelta_minutes 1 = Inr 60000000" "timedelta_minutes 60 = Inr 3600000000"
    by (simp_all add: timedelta_minutes_def)
  have k2: "generate_key Inr id (S ''fc'') (S ''q'') = Inr (S ''fc_q'')"
    by (simp add: generate_key_def S_def)
  have ne: "S ''qa_q'' \<noteq> S ''fc_q''"
    by (simp add: S_def)
  note T1 = cache_get_evicts_set_frames
    [of Inr id "S ''qa''" "S ''q''" "S ''qa_q''" one_entry_cache ?item 1 60000000 120001000]
  have "\<exists>st'. CacheManager_get Inr id 120001000 (S ''qa'') (S ''q'') 1 one_entry_cache
            = Inr (None, st') \<and>
         cache_store st' = (cache_store one_entry_cache)(S ''qa_q'' := None) \<and>
         (\<forall>now' ttl_minutes'. \<exists>st''.
            CacheManager_get Inr id now' (S ''qa'') (S ''q'') ttl_minutes' st' = Inr (None, st'')) \<and>
         (\<forall>now' ttl_minutes' ttl'.
            timedelta_minutes ttl_minutes' = Inr ttl' \<and> now' - timestamp ?item < ttl' \<longrightarrow>
            (\<exists>st''. CacheManager_get Inr id now' (S ''qa'') (S ''q'') ttl_minutes' one_entry_cache
                      = Inr (data ?item, st'')))"
    by (rule mp [OF T1 [THEN conjunct1]]) (simp add: k i t)
  then obtain st' where
    g: "CacheManager_get Inr id 120001000 (S ''qa'') (S ''q'') 1 one_entry_cache = Inr (None, st')"
    and c: "cache_store st' = (cache_store one_entry_cache)(S ''qa_q'' := None)"
    and l: "\<forall>now' ttl_minutes'. \<exists>st''.
             CacheManager_get Inr id now' (S ''qa'') (S ''q'') ttl_minutes' st' = Inr (None, st'')"
    and o: "\<forall>now' ttl_minutes' ttl'.
             timedelta_minutes ttl_minutes' = Inr ttl' \<and> now' - timestamp ?item < ttl' \<longrightarrow>
             (\<exists>st''. CacheManager_get Inr id now' (S ''qa'') (S ''q'') ttl_minutes' one_entry_cache
                      = Inr (data ?item, st''))"
    by blast
  have "timedelta_minutes 60 = Inr 3600000000 \<and> 120001000 - timestamp ?item < 3600000000"
    by (simp add: t)
  with o have "\<exists>st''. CacheManager_get Inr id 120001000 (S ''qa'') (S ''q'') 60
      one_entry_cache = Inr (data ?item, st'')"
    by blast
  then have o': "\<exists>st''. CacheManager_get Inr id 120001000 (S ''qa'') (S ''q'') 60
      one_entry_cache = Inr (Some 7, st'')"
    by simp
  note T2 = cache_get_evicts_set_frames
    [of Inr id "S ''fc''" "S ''q''" "S ''fc_q''" one_entry_cache _ _ _ 5 "Some 9"]
  have "\<exists>st1. CacheManager_set Inr id 5 (S ''fc'') (S ''q'') (Some 9) one_entry_cache = Inr st1 \<and>
         cache_store st1 (S ''fc_q'') = Some \<lparr>data = Some 9, timestamp = 5\<rparr> \<and>
         (\<forall>k. k \<noteq> S ''fc_q'' \<longrightarrow> cache_store st1 k = cache_store one_entry_cache k) \<and>
         use_session_state st1 = use_session_state one_entry_cache \<and>
         performance_monitor st1 = performance_monitor one_entry_cache"
    by (rule mp [OF T2 [THEN conjunct2]]) (rule k2)
  with ne have f: "\<exists>st1. CacheManager_set Inr id 5 (S ''fc'') (S ''q'') (Some 9) one_entry_cache = Inr st1 \<and>
        cache_store st1 (S ''qa_q'') = cache_store one_entry_cache (S ''qa_q'')"
    by blast
  from g c l o' f show ?thesis
    by blast
qed

section \<open>Properties of the recommendation rules\<close>

text \<open>
  C3. \<open>_determine_action\<close> is a total function of its three scalars whose result is fixed
  by ordered threshold checks: Strong Buy with confidence 0.9 when the expected return is
  above 10, the combined score above 0.7 and the sentiment above 0.2; otherwise Buy with 0.8
  when the expected return is above 5 and the combined score above 0.6; otherwise Sell with
  0.8 when the expected return is below -10, or the combined score is below 0.3 and the
  sentiment below -0.3; otherwise Weak Sell with 0.7 when the expected return is below -5
  or the combined score below 0.4; otherwise Hold, with confidence 0.6 when the absolute
  expected return is below 3 and 0.5 when it is not. The action is always one of the five
  enumerated ones. The comparisons are Python's, so the statement covers NaN and the
  infinities as well; a threshold with a fractional part is the float \<open>r c\<close> of its
  literal \<open>c\<close>, whatever the rounding \<open>r\<close> is.
\<close>

theorem determine_action_thresholds:
  "(fgt er (Fin 10) \<and> fgt cs (r 0.7) \<and> fgt ss (r 0.2) \<longrightarrow>
      determine_action r er cs ss = (STRONG_BUY, 0.9))
   \<and> (\<not> (fgt er (Fin 10) \<and> fgt cs (r 0.7) \<and> fgt ss (r 0.2)) \<and>
       fgt er (Fin 5) \<and> fgt cs (r 0.6) \<longrightarrow>
      determine_action r er cs ss = (BUY, 0.8))
   \<and> (\<not> (fgt er (Fin 10) \<and> fgt cs (r 0.7) \<and> fgt ss (r 0.2)) \<and>
       \<not> (fgt er (Fin 5) \<and> fgt cs (r 0.6)) \<and>
       (flt er (Fin (- 10)) \<or> (flt cs (r 0.3) \<and> flt ss (fneg (r 0.3)))) \<longrightarrow>
      determine_action r er cs ss = (SELL, 0.8))
   \<and> (\<not> (fgt er (Fin 10) \<and> fgt cs (r 0.7) \<and> fgt ss (r 0.2)) \<and>
       \<not> (fgt er (Fin 5) \<and> fgt cs (r 0.6)) \<and>
       \<not> (flt er (Fin (- 10)) \<or> (flt cs (r 0.3) \<and> flt ss (fneg (r 0.3)))) \<and>
       (flt er (Fin (- 5)) \<or> flt cs (r 0.4)) \<longrightarrow>
      determine_action r er cs ss = (WEAK_SELL, 0.7))
   \<and> (\<not> (fgt er (Fin 10) \<and> fgt cs (r 0.7) \<and> fgt ss (r 0.2)) \<and>
       \<not> (fgt er (Fin 5) \<and> fgt cs (r 0.6)) \<and>
       \<not> (flt er (Fin (- 10)) \<or> (flt cs (r 0.3) \<and> flt ss (fneg (r 0.3)))) \<and>
       \<not> (flt er (Fin (- 5)) \<or> flt cs (r 0.4)) \<longrightarrow>
      determine_action r er cs ss = (HOLD, if flt (fabs er) (Fin 3) then 0.6 else 0.5))
   \<and> fst (determine_action r er cs ss) \<in> {STRONG_BUY, BUY, HOLD, WEAK_SELL, SELL}
   \<and> snd (determine_action r er cs ss) \<in> {0.9, 0.8, 0.7, 0.6, 0.5}"
proof -
  have act: "fst (determine_action r er cs ss) \<in> {STRONG_BUY, BUY, HOLD, WEAK_SELL, SELL}"
    by (cases "fst (determine_action r er cs ss)") simp_all
  have conf: "snd (determine_action r er cs ss) \<in> {0.9, 0.8, 0.7, 0.6, 0.5}"
    unfolding determine_action_def by (simp split: if_splits)
  show ?thesis
    using act conf unfolding determine_action_def by simp
qed

theorem determine_action_thresholds_witness:
  "determine_action exact_rounding (Fin 12) (Fin 0.8) (Fin 0.3) = (STRONG_BUY, 0.9)
   \<and> determine_action exact_rounding (Fin 12) (Fin 0.8) (Fin 0.1) = (BUY, 0.8)
   \<and> determine_action exact_rounding (Fin (- 11)) (Fin 0.5) (Fin 0) = (SELL, 0.8)
   \<and> determine_action exact_rounding (Fin 2) (Fin 0.25) (Fin (- 0.5)) = (SELL, 0.8)
   \<and> determine_action exact_rounding (Fin (- 6)) (Fin 0.5) (Fin 0) = (WEAK_SELL, 0.7)
   \<and> determine_action exact_rounding (Fin 1) (Fin 0.5) (Fin 0) = (HOLD, 0.6)
   \<and> determine_action exact_rounding (Fin 4) (Fin 0.5) (Fin 0) = (HOLD, 0.5)
   \<and> determine_action exact_rounding NaN NaN NaN = (HOLD, 0.5)"
  using determine_action_thresholds
      [where r = exact_rounding and er = "Fin 12" and cs = "Fin 0.8" and ss = "Fin 0.3"]
    determine_action_thresholds
      [where r = exact_rounding and er = "Fin 12" and cs = "Fin 0.8" and ss = "Fin 0.1"]
    determine_action_thresholds
      [where r = exact_rounding and er = "Fin (- 11)" and cs = "Fin 0.5" and ss = "Fin 0"]
    determine_action_thresholds
      [where r = exact_rounding and er = "Fin 2" and cs = "Fin 0.25" and ss = "Fin (- 0.5)"]
    determine_action_thresholds
      [where r = exact_rounding and er = "Fin (- 6)" and cs = "Fin 0.5" and ss = "Fin 0"]
    determine_action_thresholds
      [where r = exact_rounding and er = "Fin 1" and cs = "Fin 0.5" and ss = "Fin 0"]
    determine_action_thresholds
      [where r = exact_rounding and er = "Fin 4" and cs = "Fin 0.5" and ss = "Fin 0"]
    determine_action_thresholds
      [where r = exact_rounding and er = NaN and cs = NaN and ss = NaN]
  by (simp add: fgt_def exact_rounding_def)

text \<open>
  C8. With an empty list of predicted prices, \<open>generate_recommendation\<close> does not raise: it
  returns a recommendation for the given symbol with action Hold, confidence 0.5, the
  current price as target price and risk level "Unknown", whatever the other arguments are.
  \<open>_calculate_technical_score\<close> of an empty indicators dictionary returns the neutral 0.5.
\<close>

theorem no_crash_on_missing_inputs:
  "(\<exists>rec. generate_recommendation r mean fmt1 symb current_price [] sentiment_score
           technical_indicators fundamental_data = Inr rec \<and>
        symbol rec = symb \<and> action rec = HOLD \<and> confidence rec = 0.5 \<and>
        target_price rec = Fin current_price \<and> risk_level rec = S ''Unknown'')
   \<and> calculate_technical_score r [] = Inr (Fin 0.5)"
  by (simp add: generate_recommendation_def calculate_technical_score_def)

section \<open>Properties of the forecast\<close>

lemma map_of_model_weights:
  "map_of model_weights (S ''random_forest'') = Some 0.4"
  "map_of model_weights (S ''gradient_boost'') = Some 0.4"
  "map_of model_weights (S ''linear'') = Some 0.2"
  by (simp_all add: model_weights_def S_def)

lemma iterate_predictions_length:
  "iterate_predictions p n lf = Inr ps \<Longrightarrow> length ps = n"
  by (induction n arbitrary: lf ps) (auto split: sum.splits list.splits)

lemma run_model_length:
  "run_model ft fit features targets n = Inr ps \<Longrightarrow> length ps = n"
  by (auto simp: run_model_def iterate_predictions_length split: sum.splits if_splits)

lemma iterate_predictions_clamps:
  "iterate_predictions p n lf =
     (case raw_predictions p n lf of Inl e \<Rightarrow> Inl e | Inr raw \<Rightarrow> Inr (map (max 0) raw))"
  by (induction n arbitrary: lf) (auto split: sum.splits list.splits)

lemma run_model_clamps:
  "model_predictions ft fit features targets n = Inr raw \<Longrightarrow>
     run_model ft fit features targets n = Inr (map (max 0) raw)"
  by (auto simp: run_model_def model_predictions_def iterate_predictions_clamps
      split: sum.splits if_splits)

lemma model_predictions_length:
  "model_predictions ft fit features targets n = Inr raw \<Longrightarrow> length raw = n"
  using run_model_length [OF run_model_clamps] by fastforce

lemma ensemble_blend_recorded:
  assumes "30 \<le> length (fst (prepare_features close_prices))"
    and "run_model fit_transform random_forest (fst (prepare_features close_prices))
           (snd (prepare_features close_prices)) (nat days) = Inr rf_preds"
    and "run_model fit_transform gradient_boost (fst (prepare_features close_prices))
           (snd (prepare_features close_prices)) (nat days) = Inr gb_preds"
    and "run_model fit_transform linear_regression (fst (prepare_features close_prices))
           (snd (prepare_features close_prices)) (nat days) = Inr lr_preds"
  shows "generate_ensemble_predictions fit_transform random_forest gradient_boost
             linear_regression close_prices days
         = Inr (map (\<lambda>day. 0.4 * rf_preds ! day + 0.4 * gb_preds ! day + 0.2 * lr_preds ! day)
                  [0 ..< nat days])"
proof -
  obtain features targets where pf: "prepare_features close_prices = (features, targets)"
    by (cases "prepare_features close_prices")
  have "train_ensemble fit_transform (models random_forest gradient_boost linear_regression)
          features targets (nat days) = [(rf_preds, 0.4), (gb_preds, 0.4), (lr_preds, 0.2)]"
    using assms(2-4) by (simp add: pf models_def map_of_model_weights)
  then show ?thesis
    using assms(1) by (simp add: generate_ensemble_predictions_def pf)
qed

text \<open>
  C2, as amended. When the feature matrix has the thirty rows the fit needs and the
  \<open>try\<close> body succeeds for all three regressors, the function returns one forecast per
  day, and each day's forecast is 0.4 times the random-forest prediction plus 0.4 times
  the gradient-boosting prediction plus 0.2 times the linear-regression prediction of that
  day, each prediction floored at zero (\<open>max(0, pred)\<close>) before it is weighted. The weights
  are the constants 0.4, 0.4 and 0.2, whatever the day and the price history, and they sum
  to 1.
\<close>

theorem ensemble_blend_fixed_weights:
  assumes "30 \<le> length (fst (prepare_features close_prices))"
    and "model_predictions fit_transform random_forest (fst (prepare_features close_prices))
           (snd (prepare_features close_prices)) (nat days) = Inr rf_preds"
    and "model_predictions fit_transform gradient_boost (fst (prepare_features close_prices))
           (snd (prepare_features close_prices)) (nat days) = Inr gb_preds"
    and "model_predictions fit_transform linear_regression (fst (prepare_features close_prices))
           (snd (prepare_features close_prices)) (nat days) = Inr lr_preds"
  shows "(\<exists>final. generate_ensemble_predictions fit_transform random_forest gradient_boost
             linear_regression close_prices days = Inr final \<and>
           length final = nat days \<and>
           (\<forall>day < nat days.
              final ! day = 0.4 * max 0 (rf_preds ! day) + 0.4 * max 0 (gb_preds ! day)
                            + 0.2 * max 0 (lr_preds ! day)))
         \<and> map snd model_weights = [0.4, 0.4, 0.2]
         \<and> sum_list (map snd model_weights) = 1"
proof -
  note len = model_predictions_length [OF assms(2)] model_predictions_length [OF assms(3)]
    model_predictions_length [OF assms(4)]
  let ?final = "map (\<lambda>day. 0.4 * map (max 0) rf_preds ! day + 0.4 * map (max 0) gb_preds ! day
                          + 0.2 * map (max 0) lr_preds ! day) [0 ..< nat days]"
  have g: "generate_ensemble_predictions fit_transform random_forest gradient_boost
             linear_regression close_prices days = Inr ?final"
    by (rule ensemble_blend_recorded [OF assms(1) run_model_clamps [OF assms(2)]
          run_model_clamps [OF assms(3)] run_model_clamps [OF assms(4)]])
  have "length ?final = nat days"
    by simp
  moreover have "\<forall>day < nat days.
      ?final ! day = 0.4 * max 0 (rf_preds ! day) + 0.4 * max 0 (gb_preds ! day)
                     + 0.2 * max 0 (lr_preds ! day)"
    using len by simp
  moreover have "map snd model_weights = [0.4, 0.4, 0.2]"
    "sum_list (map snd model_weights) = 1"
    by (simp_all add: model_weights_def)
  ultimately show ?thesis
    using g by blast
qed

lemma len_features: "length (fst (prepare_features flat_prices)) = 30"
  by (simp add: prepare_features_def flat_prices_def)

lemma raw_constant:
  "lf \<noteq> [] \<Longrightarrow> raw_predictions (\<lambda>row. Inr c) n lf = Inr (replicate n c)"
  by (induction n arbitrary: lf) (auto split: list.splits)

lemma model_predictions_constant:
  "model_predictions Inr (constant_model c) (fst (prepare_features flat_prices))
     (snd (prepare_features flat_prices)) (nat 2) = Inr [c, c]"
proof -
  have ne: "fst (prepare_features flat_prices) \<noteq> []"
    using len_features by auto
  have l: "last (fst (prepare_features flat_prices)) \<noteq> []"
    using ne by (simp add: prepare_features_def last_map feature_vector_def Let_def)
  show ?thesis
    by (simp add: model_predictions_def constant_model_def ne raw_constant [OF l]
        eval_nat_numeral)
qed

theorem ensemble_blend_fixed_weights_witness:
  "generate_ensemble_predictions Inr (constant_model 100) (constant_model 110)
     (constant_model 120) flat_prices 2 = Inr [108, 108]"
proof -
  have a: "30 \<le> length (fst (prepare_features flat_prices))"
    by (simp add: len_features)
  from ensemble_blend_fixed_weights [OF a model_predictions_constant
      model_predictions_constant model_predictions_constant, of 100 110 120]
  obtain final where
    g: "generate_ensemble_predictions Inr (constant_model 100) (constant_model 110)
          (constant_model 120) flat_prices 2 = Inr final"
    and n: "length final = nat 2"
    and v: "\<forall>day < nat 2. final ! day
              = 0.4 * max 0 ([100, 100] ! day) + 0.4 * max 0 ([110, 110] ! day)
                + 0.2 * max 0 ([120, 120 :: real] ! day)"
    by blast
  from v have "final ! 0 = 108" "final ! 1 = 108"
    by simp_all
  with n have "final = [108, 108]"
    by (cases final; cases "tl final") (auto simp: eval_nat_numeral)
  with g show ?thesis by simp
qed

text \<open>
  C2 as stated fails when a regressor predicts a negative price: with fitted models that
  predict 100, 110 and -5 on both days, the forecast of each day is 84, which is
  \<open>0.4 * 100 + 0.4 * 110 + 0.2 * 0\<close>, while 0.4 times the first prediction plus 0.4 times
  the second plus 0.2 times the third is 83.
\<close>

theorem ensemble_blend_counterexample:
  "generate_ensemble_predictions Inr (constant_model 100) (constant_model 110)
     (constant_model (- 5)) flat_prices 2 = Inr [84, 84]
   \<and> model_predictions Inr (constant_model 100) (fst (prepare_features flat_prices))
        (snd (prepare_features flat_prices)) (nat 2) = Inr [100, 100]
   \<and> model_predictions Inr (constant_model 110) (fst (prepare_features flat_prices))
        (snd (prepare_features flat_prices)) (nat 2) = Inr [110, 110]
   \<and> model_predictions Inr (constant_model (- 5)) (fst (prepare_features flat_prices))
        (snd (prepare_features flat_prices)) (nat 2) = Inr [- 5, - 5]
   \<and> 0.4 * 100 + 0.4 * 110 + 0.2 * (- 5) \<noteq> (84 :: real)"
proof -
  have a: "30 \<le> length (fst (prepare_features flat_prices))"
    by (simp add: len_features)
  have "generate_ensemble_predictions Inr (constant_model 100) (constant_model 110)
          (constant_model (- 5)) flat_prices 2
        = Inr (map (\<lambda>day. 0.4 * map (max 0) [100, 100] ! day
                         + 0.4 * map (max 0) [110, 110] ! day
                         + 0.2 * map (max 0) [- 5, - 5] ! day) [0 ..< nat 2])"
    by (rule ensemble_blend_recorded [OF a run_model_clamps [OF model_predictions_constant]
          run_model_clamps [OF model_predictions_constant]
          run_model_clamps [OF model_predictions_constant]])
  then have "generate_ensemble_predictions Inr (constant_model 100) (constant_model 110)
          (constant_model (- 5)) flat_prices 2 = Inr [84, 84]"
    by (simp add: eval_nat_numeral upt_rec)
  then show ?thesis
    using model_predictions_constant [of 100] model_predictions_constant [of 110]
      model_predictions_constant [of "- 5"]
    by simp
qed

lemma py_max_Fin [simp]: "py_max (Fin a) (Fin b) = Fin (max a b)"
  by (simp add: py_max_def fgt_def max_def)

lemma py_min_Fin [simp]: "py_min (Fin a) (Fin b) = Fin (min a b)"
  by (simp add: py_min_def min_def)

lemma py_max_NaN [simp]: "py_max NaN b = NaN" "py_max (Fin a) NaN = Fin a"
  by (simp_all add: py_max_def fgt_def)

lemma fle_Fin [simp]: "fle (Fin a) (Fin b) = (a \<le> b)"
  by (auto simp: fle_def)

lemma fle_PInf [simp]: "fle (Fin a) PInf" "fle PInf PInf" "\<not> fle PInf (Fin a)"
  "\<not> fle (Fin a) NInf" "\<not> fle NaN x" "\<not> fle x NaN"
  by (simp_all add: fle_def)

text \<open>A float that is NaN or not negative.\<close>

lemma rounding_mono: "is_rounding r \<Longrightarrow> x \<le> y \<Longrightarrow> fle (r x) (r y)"
  by (simp add: is_rounding_def)

lemma rounding_nonneg: "is_rounding r \<Longrightarrow> 0 \<le> x \<Longrightarrow> fle (Fin 0) (r x)"
  using rounding_mono [of r 0 x] by (simp add: is_rounding_def)

lemma nonneg_cases:
  assumes "fle (Fin 0) a"
  obtains v where "a = Fin v" "0 \<le> v" | "a = PInf"
  using assms by (cases a) simp_all

lemma fmul_nonneg:
  assumes "is_rounding r" "a = NaN \<or> fle (Fin 0) a" "b = NaN \<or> fle (Fin 0) b"
  shows "fmul r a b = NaN \<or> fle (Fin 0) (fmul r a b)"
proof (cases "a = NaN \<or> b = NaN")
  case True
  then show ?thesis by (cases a; cases b) auto
next
  case False
  with assms have a: "fle (Fin 0) a" and b: "fle (Fin 0) b" by auto
  from a show ?thesis
  proof (cases rule: nonneg_cases)
    case (1 v)
    from b show ?thesis
    proof (cases rule: nonneg_cases)
      case (1 w)
      with \<open>a = Fin v\<close> \<open>0 \<le> v\<close> assms(1) show ?thesis
        by (simp add: rounding_nonneg)
    next
      case 2
      with \<open>a = Fin v\<close> \<open>0 \<le> v\<close> show ?thesis
        by (auto simp: signed_inf_def)
    qed
  next
    case 2
    from b show ?thesis
    proof (cases rule: nonneg_cases)
      case (1 w)
      with \<open>a = PInf\<close> \<open>0 \<le> w\<close> show ?thesis
        by (simp add: signed_inf_def)
    next
      case 2
      with \<open>a = PInf\<close> show ?thesis
        by (simp add: signed_inf_def)
    qed
  qed
qed

lemma fsqrt_nonneg:
  assumes "is_rounding r" "fle (Fin 0) a"
  shows "fle (Fin 0) (fsqrt r a)"
  using assms(2)
proof (cases rule: nonneg_cases)
  case (1 v)
  with assms(1) show ?thesis by (simp add: rounding_nonneg)
next
  case 2
  then show ?thesis by simp
qed

lemma py_max_nonneg:
  assumes "a = NaN \<or> fle (Fin 0) a" "b = NaN \<or> fle (Fin 0) b"
  shows "py_max a b = NaN \<or> fle (Fin 0) (py_max a b)"
  using assms by (auto simp: py_max_def)

lemma pd_std_nonneg:
  "std_nonneg std \<Longrightarrow> pd_std std xs = NaN \<or> fle (Fin 0) (pd_std std xs)"
  by (simp add: pd_std_def std_nonneg_def)

lemma effective_volatility_nonneg:
  assumes "is_rounding r" "std_nonneg std"
  shows "effective_volatility_of r std closes = NaN
       \<or> fle (Fin 0) (effective_volatility_of r std closes)"
proof -
  have s: "fle (Fin 0) (fsqrt r (Fin 252))"
    by (rule fsqrt_nonneg [OF assms(1)]) simp
  have l: "fle (Fin 0) (r 1.2)"
    by (rule rounding_nonneg [OF assms(1)]) simp
  note v = fmul_nonneg [OF assms(1) pd_std_nonneg [OF assms(2)] disjI2 [OF s]]
  show ?thesis
    unfolding effective_volatility_of_def Let_def
    by (intro py_max_nonneg v fmul_nonneg [OF assms(1) v disjI2 [OF l]])
qed

lemma finite_nonneg:
  assumes "a = NaN \<or> fle (Fin 0) a" "a = Fin v"
  shows "0 \<le> v"
  using assms by simp

lemma literal_between:
  assumes "is_rounding r" "1 / 2 \<le> c" "c \<le> 1"
  obtains k where "r c = Fin k" "0 < k"
proof -
  from rounding_mono [OF assms(1,2)] assms(1) have lo: "fle (Fin (1 / 2)) (r c)"
    by (simp add: is_rounding_def)
  from rounding_mono [OF assms(1,3)] assms(1) have hi: "fle (r c) (Fin 1)"
    by (simp add: is_rounding_def)
  from lo hi show ?thesis
    by (cases "r c") (auto intro: that)
qed

lemma z_times_nonneg:
  assumes "is_rounding r" "0 \<le> p"
  shows "z_times r p = NaN \<or> fle (Fin 0) (z_times r p)"
  unfolding z_times_def
  by (rule fmul_nonneg [OF assms(1)])
    (simp_all add: rounding_nonneg [OF assms(1)] assms(2))

lemma time_vol_nonneg:
  assumes "is_rounding r" "e = NaN \<or> fle (Fin 0) e"
  shows "time_vol r e i = NaN \<or> fle (Fin 0) (time_vol r e i)"
proof -
  have "fle (Fin 0) (r (real (i + 1) / 252))"
    by (rule rounding_nonneg [OF assms(1)]) simp
  then have "fle (Fin 0) (fsqrt r (r (real (i + 1) / 252)))"
    by (rule fsqrt_nonneg [OF assms(1)])
  then show ?thesis
    unfolding time_vol_def by (intro fmul_nonneg [OF assms(1) assms(2)]) simp
qed

lemma margin_nonneg:
  assumes r: "is_rounding r" and p: "0 \<le> p" and e: "e = NaN \<or> fle (Fin 0) e"
    and z: "z_times r p = Fin a" and t: "time_vol r e i = Fin t"
  shows "fle (Fin 0) (margin_of r e i p)"
proof -
  from finite_nonneg [OF z_times_nonneg [OF r p] z] have a: "0 \<le> a" .
  from finite_nonneg [OF time_vol_nonneg [OF r e] t] have t': "0 \<le> t" .
  from a t' have "0 \<le> a * t" by simp
  then have m: "fle (Fin 0) (r (a * t))"
    by (rule rounding_nonneg [OF r])
  obtain k where k: "r 0.7 = Fin k" "0 < k"
    by (rule literal_between [OF r, of "0.7"]) simp_all
  from m show ?thesis
  proof (cases rule: nonneg_cases)
    case (1 v)
    with k have "0 \<le> v * k" by simp
    then have "fle (Fin 0) (r (v * k))"
      by (rule rounding_nonneg [OF r])
    with 1 k show ?thesis
      by (simp add: margin_of_def z t)
  next
    case 2
    with k show ?thesis
      by (simp add: margin_of_def z t signed_inf_def)
  qed
qed

lemma bounds_with_margin:
  assumes r: "is_rounding r" and f: "r p = Fin p" and p: "0 \<le> p" and m: "fle (Fin 0) m"
  shows "fle (Fin 0) (py_max (Fin 0) (fsub r (Fin p) m))
       \<and> fle (py_max (Fin 0) (fsub r (Fin p) m)) (Fin p)
       \<and> fle (Fin p) (fadd r (Fin p) m)"
  using m
proof (cases rule: nonneg_cases)
  case (1 v)
  from rounding_mono [OF r, of p "p + v"] 1 f have up: "fle (Fin p) (r (p + v))"
    by simp
  from rounding_mono [OF r, of "p - v" p] 1 f have down: "fle (r (p - v)) (Fin p)"
    by simp
  from down p have "fle (Fin 0) (py_max (Fin 0) (r (p - v)))
      \<and> fle (py_max (Fin 0) (r (p - v))) (Fin p)"
    by (cases "r (p - v)") (auto simp: py_max_def fgt_def)
  with up 1 show ?thesis
    by (simp add: fsub_def)
next
  case 2
  with p show ?thesis
    by (simp add: fsub_def py_max_def fgt_def)
qed

lemma clamp_between:
  assumes "fle lo hi"
  shows "fle lo (py_max lo (py_min hi x)) \<and> fle (py_max lo (py_min hi x)) hi"
  using assms
  by (cases lo; cases hi; cases x) (auto simp: py_max_def py_min_def fgt_def fle_def)

lemma expected_return_returns:
  assumes "value_of c \<noteq> 0 \<or> is_numpy c \<or> is_numpy f"
  shows "\<exists>e. expected_return_of r c f = Inr e"
  using assms by (auto simp: expected_return_of_def py_div_def Let_def)

lemma exact_is_rounding: "is_rounding exact_rounding"
  by (simp add: is_rounding_def exact_rounding_def)

lemma sample_std_nonneg: "std_nonneg sample_std"
  unfolding std_nonneg_def
proof
  fix xs
  show "sample_std xs = NaN \<or> fle (Fin 0) (sample_std xs)"
  proof (cases "finite_values xs")
    case None
    then show ?thesis by (simp add: sample_std_def)
  next
    case (Some vs)
    have "0 \<le> sum_list (map (\<lambda>x. (x - np_mean vs)\<^sup>2) vs) / real (length vs - 1)"
      by (intro divide_nonneg_nonneg sum_list_nonneg) auto
    with Some show ?thesis by (simp add: sample_std_def)
  qed
qed

lemma finite_float:
  "x \<noteq> NaN \<Longrightarrow> x \<noteq> PInf \<Longrightarrow> x \<noteq> NInf \<Longrightarrow> \<exists>v. x = Fin v"
  by (cases x) auto

lemma exact_volatility:
  "\<exists>v. effective_volatility_of exact_rounding sample_std [100, 101, 103] = Fin v"
  by (rule finite_float)
    (simp_all add: effective_volatility_of_def dropna_def pd_std_def sample_std_def tail_def
      fsub_def exact_rounding_def Let_def)

lemma exact_z_times: "\<exists>a. z_times exact_rounding p = Fin a"
  by (rule finite_float) (simp_all add: z_times_def exact_rounding_def)

lemma exact_time_vol: "\<exists>t. time_vol exact_rounding (Fin v) i = Fin t"
  by (rule finite_float) (simp_all add: time_vol_def exact_rounding_def)

text \<open>
  C10, as amended. Let the rounding keep the order and be exact on 0, 1/2 and 1, and let
  the standard deviation be NaN or not negative. For a non-empty list of predictions that
  are non-negative floats, such that the division by the first prediction does not raise
  (the first prediction is not zero, or the first or the last prediction is a NumPy scalar),
  and such that for every index \<open>i\<close> the two factors \<open>1.96 * predictions[i]\<close> and
  \<open>effective_vol * sqrt((i + 1) / 252)\<close> of the margin are finite floats (so the history
  gives a volatility that is not NaN), \<open>_calculate_confidence_intervals\<close> returns a
  dictionary whose upper and lower bounds have the length of the prediction list, with
  \<open>0 <= lower_bounds[i] <= predictions[i] <= upper_bounds[i]\<close> at every index, whose
  \<open>probability_up\<close> lies between the floats 0.15 and 0.85 and whose \<open>probability_down\<close> is
  the float difference \<open>1 - probability_up\<close>.
\<close>

theorem confidence_interval_invariant:
  assumes r: "is_rounding r" and std: "std_nonneg std"
    and ne: "predictions \<noteq> []"
    and floats: "\<forall>p\<in>set predictions. r (value_of p) = Fin (value_of p)"
    and nonneg: "\<forall>p\<in>set predictions. 0 \<le> value_of p"
    and division: "value_of (hd predictions) \<noteq> 0 \<or> is_numpy (hd predictions)
                   \<or> is_numpy (last predictions)"
    and finite: "\<forall>i < length predictions.
                   (\<exists>a. z_times r (value_of (predictions ! i)) = Fin a) \<and>
                   (\<exists>t. time_vol r (effective_volatility_of r std closes) i = Fin t)"
  shows "\<exists>ci. calculate_confidence_intervals r std predictions closes = Inr (Some ci) \<and>
           length (upper_bounds ci) = length predictions \<and>
           length (lower_bounds ci) = length predictions \<and>
           (\<forall>i < length predictions.
              fle (Fin 0) (lower_bounds ci ! i) \<and>
              fle (lower_bounds ci ! i) (Fin (value_of (predictions ! i))) \<and>
              fle (Fin (value_of (predictions ! i))) (upper_bounds ci ! i)) \<and>
           fle (r 0.15) (probability_up ci) \<and> fle (probability_up ci) (r 0.85) \<and>
           probability_down ci = fsub r (Fin 1) (probability_up ci)"
proof -
  let ?e = "effective_volatility_of r std closes"
  note e = effective_volatility_nonneg [OF r std, of closes]
  from expected_return_returns [OF division, of r] obtain er where
    er: "expected_return_of r (hd predictions) (last predictions) = Inr er"
    by blast
  let ?p = "py_max (r 0.15) (py_min (r 0.85)
              (fadd r (Fin 0.5) (np_div r er (fmul r (Fin 2) ?e))))"
  let ?ci = "\<lparr>upper_bounds = map (\<lambda>(i, pred).
                 fadd r (Fin (value_of pred)) (margin_of r ?e i (value_of pred)))
                 (enumerate 0 predictions),
               lower_bounds = map (\<lambda>(i, pred).
                 py_max (Fin 0) (fsub r (Fin (value_of pred)) (margin_of r ?e i (value_of pred))))
                 (enumerate 0 predictions),
               confidence_level = 0.95, probability_up = ?p,
               probability_down = fsub r (Fin 1) ?p,
               effective_volatility = ?e\<rparr>"
  have res: "calculate_confidence_intervals r std predictions closes = Inr (Some ?ci)"
    using ne by (simp add: calculate_confidence_intervals_def er Let_def)
  have b: "fle (Fin 0) (lower_bounds ?ci ! i) \<and>
           fle (lower_bounds ?ci ! i) (Fin (value_of (predictions ! i))) \<and>
           fle (Fin (value_of (predictions ! i))) (upper_bounds ?ci ! i)"
    if i: "i < length predictions" for i
  proof -
    from i have mem: "predictions ! i \<in> set predictions"
      by simp
    from mem nonneg have p: "0 \<le> value_of (predictions ! i)"
      by blast
    from mem floats have f: "r (value_of (predictions ! i)) = Fin (value_of (predictions ! i))"
      by blast
    from finite i obtain a t where
      z: "z_times r (value_of (predictions ! i)) = Fin a" and t: "time_vol r ?e i = Fin t"
      by blast
    from bounds_with_margin [OF r f p margin_nonneg [OF r p e z t]] i show ?thesis
      by (simp add: nth_enumerate_eq)
  qed
  have "fle (r 0.15) (r 0.85)"
    by (rule rounding_mono [OF r]) simp
  from clamp_between [OF this] have c: "fle (r 0.15) ?p" "fle ?p (r 0.85)"
    by blast+
  have "length (upper_bounds ?ci) = length predictions"
    "length (lower_bounds ?ci) = length predictions"
    "fle (r 0.15) (probability_up ?ci)" "fle (probability_up ?ci) (r 0.85)"
    "probability_down ?ci = fsub r (Fin 1) (probability_up ?ci)"
    using c by simp_all
  with res b show ?thesis
    by blast
qed

theorem confidence_interval_invariant_witness:
  "\<exists>ci. calculate_confidence_intervals exact_rounding sample_std [NpFloat 100, PyFloat 102]
          [100, 101, 103] = Inr (Some ci) \<and>
     length (upper_bounds ci) = 2 \<and> length (lower_bounds ci) = 2 \<and>
     fle (Fin 0) (lower_bounds ci ! 1) \<and> fle (lower_bounds ci ! 1) (Fin 102) \<and>
     fle (Fin 102) (upper_bounds ci ! 1) \<and>
     fle (Fin 0.15) (probability_up ci) \<and> fle (probability_up ci) (Fin 0.85)"
proof -
  let ?ps = "[NpFloat 100, PyFloat 102]"
  have a: "?ps \<noteq> []"
    and f: "\<forall>p\<in>set ?ps. exact_rounding (value_of p) = Fin (value_of p)"
    and b: "\<forall>p\<in>set ?ps. 0 \<le> value_of p"
    and c: "value_of (hd ?ps) \<noteq> 0 \<or> is_numpy (hd ?ps) \<or> is_numpy (last ?ps)"
    by (simp_all add: exact_rounding_def)
  from exact_volatility obtain v where
    v: "effective_volatility_of exact_rounding sample_std [100, 101, 103] = Fin v"
    by blast
  have d: "\<forall>i < length ?ps.
      (\<exists>a. z_times exact_rounding (value_of (?ps ! i)) = Fin a) \<and>
      (\<exists>t. time_vol exact_rounding
              (effective_volatility_of exact_rounding sample_std [100, 101, 103]) i = Fin t)"
    by (simp add: v exact_z_times exact_time_vol)
  from confidence_interval_invariant [OF exact_is_rounding sample_std_nonneg a f b c d]
  obtain ci where
    res: "calculate_confidence_intervals exact_rounding sample_std ?ps [100, 101, 103]
          = Inr (Some ci)"
    and l: "length (upper_bounds ci) = length ?ps" "length (lower_bounds ci) = length ?ps"
    and i: "\<forall>i < length ?ps.
              fle (Fin 0) (lower_bounds ci ! i) \<and>
              fle (lower_bounds ci ! i) (Fin (value_of (?ps ! i))) \<and>
              fle (Fin (value_of (?ps ! i))) (upper_bounds ci ! i)"
    and p: "fle (exact_rounding 0.15) (probability_up ci)"
      "fle (probability_up ci) (exact_rounding 0.85)"
    by blast
  have "(1::nat) < length ?ps"
    by simp
  with i have "fle (Fin 0) (lower_bounds ci ! 1) \<and>
      fle (lower_bounds ci ! 1) (Fin (value_of (?ps ! 1))) \<and>
      fle (Fin (value_of (?ps ! 1))) (upper_bounds ci ! 1)"
    by blast
  with res l p show ?thesis
    by (simp add: exact_rounding_def)
qed

lemma saturating_in_range:
  "\<bar>x\<bar> \<le> max_float \<Longrightarrow> saturating_rounding x = Fin x"
  by (auto simp: saturating_rounding_def)

lemma max_float_large: "1000 \<le> max_float"
  by (simp add: max_float_def)

lemma saturating_sqrt:
  assumes "0 \<le> x" "x \<le> 1000"
  shows "saturating_rounding (sqrt x) = Fin (sqrt x)"
proof -
  have "sqrt x \<le> 1000"
    by (rule real_le_lsqrt) (use assms in simp_all)
  moreover have "0 \<le> sqrt x"
    using assms(1) by simp
  ultimately show ?thesis
    using max_float_large by (intro saturating_in_range) simp
qed

lemma saturating_small: "\<bar>x\<bar> \<le> 1000 \<Longrightarrow> saturating_rounding x = Fin x"
  using max_float_large by (intro saturating_in_range) simp

lemma flat_volatility:
  "effective_volatility_of saturating_rounding sample_std [100, 100, 100] = Fin 0"
  by (simp add: effective_volatility_of_def dropna_def pd_std_def sample_std_def tail_def
      fsub_def Let_def np_mean_def saturating_small saturating_sqrt)

lemma flat_time_vol: "time_vol saturating_rounding (Fin 0) 0 = Fin 0"
  by (simp add: time_vol_def saturating_small saturating_sqrt)

lemma overflow_margin: "margin_of saturating_rounding (Fin 0) 0 (10 ^ 308) = NaN"
  by (simp add: margin_of_def z_times_def flat_time_vol saturating_rounding_def max_float_def)

lemma short_volatility:
  "effective_volatility_of exact_rounding sample_std [100, 101] = NaN"
  by (simp add: effective_volatility_of_def dropna_def pd_std_def tail_def fsub_def
      exact_rounding_def Let_def)

lemma saturating_is_rounding: "is_rounding saturating_rounding"
proof -
  have m: "0 \<le> max_float"
    using max_float_large by simp
  have "fle (saturating_rounding x) (saturating_rounding y)" if "x \<le> y" for x y
    using that m by (auto simp: saturating_rounding_def fle_def)
  moreover have "saturating_rounding 0 = Fin 0" "saturating_rounding (1 / 2) = Fin (1 / 2)"
    "saturating_rounding 1 = Fin 1"
    by (simp_all add: saturating_small)
  ultimately show ?thesis
    by (simp add: is_rounding_def)
qed

lemma undefined_margin_bound:
  assumes "effective_volatility_of r std closes = Fin 0"
    and "margin_of r (Fin 0) 0 p = NaN" and "p \<noteq> 0"
  shows "map_sum id (map_option upper_bounds)
     (calculate_confidence_intervals r std [PyFloat p] closes) = Inr (Some [NaN])"
  using assms
  by (simp add: calculate_confidence_intervals_def expected_return_of_def py_div_def Let_def)

text \<open>
  C10 as stated fails, already without rounding. With a history of two closing prices
  there is one daily return, its standard deviation is NaN, and the upper bound of the
  prediction 100 is NaN, which the prediction is not below. With the single prediction 0,
  a Python float, the division by the first prediction raises \<open>ZeroDivisionError\<close> and no
  dictionary is returned. It also fails by overflow: in a format with the range of
  binary64, \<open>1.96 * 1e308\<close> is infinite; with a flat history the volatility is 0, the
  margin is the product of an infinity and 0, and the upper bound of the prediction is
  NaN.
\<close>

theorem confidence_interval_counterexample:
  "calculate_confidence_intervals exact_rounding sample_std [PyFloat 100] [100, 101]
     = Inr (Some \<lparr>upper_bounds = [NaN], lower_bounds = [Fin 0], confidence_level = 0.95,
                  probability_up = Fin 0.85, probability_down = Fin 0.15,
                  effective_volatility = NaN\<rparr>)
   \<and> \<not> fle (Fin 100) NaN
   \<and> calculate_confidence_intervals exact_rounding sample_std [PyFloat 0] [100, 101, 103]
     = Inl ZeroDivisionError
   \<and> z_times saturating_rounding (10 ^ 308) = PInf
   \<and> map_sum id (map_option upper_bounds)
        (calculate_confidence_intervals saturating_rounding sample_std [PyFloat (10 ^ 308)]
           [100, 100, 100])
     = Inr (Some [NaN])
   \<and> \<not> fle (Fin (10 ^ 308)) NaN"
proof -
  have a: "calculate_confidence_intervals exact_rounding sample_std [PyFloat 100] [100, 101]
     = Inr (Some \<lparr>upper_bounds = [NaN], lower_bounds = [Fin 0], confidence_level = 0.95,
                  probability_up = Fin 0.85, probability_down = Fin 0.15,
                  effective_volatility = NaN\<rparr>)"
    by (simp add: calculate_confidence_intervals_def short_volatility expected_return_of_def
        margin_of_def z_times_def time_vol_def exact_rounding_def py_div_def fsub_def
        py_min_def py_max_def fgt_def Let_def)
  have b: "calculate_confidence_intervals exact_rounding sample_std [PyFloat 0] [100, 101, 103]
     = Inl ZeroDivisionError"
    by (simp add: calculate_confidence_intervals_def expected_return_of_def py_div_def Let_def)
  have z: "z_times saturating_rounding (10 ^ 308) = PInf"
    by (simp add: z_times_def saturating_rounding_def max_float_def)
  have c: "map_sum id (map_option upper_bounds)
        (calculate_confidence_intervals saturating_rounding sample_std [PyFloat (10 ^ 308)]
           [100, 100, 100])
     = Inr (Some [NaN])"
    by (rule undefined_margin_bound [OF flat_volatility overflow_margin]) simp
  from a b z c show ?thesis
    by simp
qed

section \<open>Properties of the text analysis\<close>

lemma labels_distinct:
  "S ''Positive'' \<noteq> S ''Negative''" "S ''Positive'' \<noteq> S ''Neutral''"
  "S ''Negative'' \<noteq> S ''Neutral''"
  by (simp_all add: S_def)

text \<open>
  C6. The label \<open>analyze_sentiment\<close> returns is fixed by the polarity it returns:
  "Positive" exactly when the polarity is above 0.1, "Negative" exactly when it is below
  -0.1, "Neutral" exactly when it is neither. When the word set of the lowercased text has
  strictly more positive keywords than negative ones, the polarity is at least 0.1 and the
  label is not "Negative"; when the negative keywords are strictly more, the polarity is at
  most -0.1 and the label is not "Positive". This holds for every text, every case mapping
  and every polarity TextBlob reports.
\<close>

theorem sentiment_label_follows_polarity:
  "(fst (analyze_sentiment env text) = S ''Positive'' \<longleftrightarrow> 0.1 < snd (analyze_sentiment env text))
   \<and> (fst (analyze_sentiment env text) = S ''Negative''
        \<longleftrightarrow> snd (analyze_sentiment env text) < - 0.1)
   \<and> (fst (analyze_sentiment env text) = S ''Neutral''
        \<longleftrightarrow> \<not> 0.1 < snd (analyze_sentiment env text) \<and> \<not> snd (analyze_sentiment env text) < - 0.1)
   \<and> (negative_count env text < positive_count env text \<longrightarrow>
        0.1 \<le> snd (analyze_sentiment env text) \<and>
        fst (analyze_sentiment env text) \<noteq> S ''Negative'')
   \<and> (positive_count env text < negative_count env text \<longrightarrow>
        snd (analyze_sentiment env text) \<le> - 0.1 \<and>
        fst (analyze_sentiment env text) \<noteq> S ''Positive'')"
  using labels_distinct labels_distinct [symmetric]
  by (simp add: analyze_sentiment_def Let_def)

lemma words_strong_growth:
  "py_split (str_lower demo_env (S ''Strong growth'')) = [S ''strong'', S ''growth'']"
  by (simp add: demo_env_def ascii_lower_def S_def py_split_def py_isspace_def)

lemma counts_strong_growth:
  "positive_count demo_env (S ''Strong growth'') = 2"
  "negative_count demo_env (S ''Strong growth'') = 0"
  unfolding positive_count_def negative_count_def words_strong_growth
  by (simp_all add: positive_words_def negative_words_def S_def)

lemma words_weak_poor:
  "py_split (str_lower demo_env (S ''Weak and poor'')) = [S ''weak'', S ''and'', S ''poor'']"
  by (simp add: demo_env_def ascii_lower_def S_def py_split_def py_isspace_def)

lemma counts_weak_poor:
  "positive_count demo_env (S ''Weak and poor'') = 0"
  "negative_count demo_env (S ''Weak and poor'') = 2"
  unfolding positive_count_def negative_count_def words_weak_poor
  by (simp_all add: positive_words_def negative_words_def S_def)

theorem sentiment_label_follows_polarity_witness:
  "0.1 \<le> snd (analyze_sentiment demo_env (S ''Strong growth''))
   \<and> fst (analyze_sentiment demo_env (S ''Strong growth'')) \<noteq> S ''Negative''
   \<and> snd (analyze_sentiment demo_env (S ''Weak and poor'')) \<le> - 0.1
   \<and> fst (analyze_sentiment demo_env (S ''Weak and poor'')) \<noteq> S ''Positive''"
  using sentiment_label_follows_polarity [of demo_env "S ''Strong growth''"]
    sentiment_label_follows_polarity [of demo_env "S ''Weak and poor''"]
  by (simp add: counts_strong_growth counts_weak_poor)

text \<open>
  C5. When \<open>OPENAI_API_KEY\<close> is unset or equals "demo" and the cache has no answer for the
  text and the question, \<open>ai_powered_qa\<close> returns what \<open>_get_fallback_answer\<close> computes
  and sends no request to the hosted model. When no piece of the text between full stops
  is longer than 20 characters after stripping, the fallback answer is the fixed string
  "No content available to answer the question."
\<close>

theorem qa_fallback_without_key:
  assumes key: "api_key = None \<or> api_key = Some (S ''demo'')"
    and miss: "CacheManager_get json_dumps md5_hexdigest now_get (S ''qa_response'')
             (py_hash env (take 1000 text), question) 60 (qa_cache w) = Inr (None, c)"
  shows "(\<exists>w'. ai_powered_qa env api_key json_dumps md5_hexdigest now_get now_set text question w
             = Inr (get_fallback_answer env text question, w') \<and>
           requests_sent w' = requests_sent w)
       \<and> ((\<forall>s \<in> set (split_on 46 text). length (strip s) \<le> 20) \<longrightarrow>
            get_fallback_answer env text question
              = S ''No content available to answer the question.'')"
proof -
  from miss obtain k where
    k: "generate_key json_dumps md5_hexdigest (S ''qa_response'')
          (py_hash env (take 1000 text), question) = Inr k"
    by (auto simp: CacheManager_get_def split: sum.splits)
  have demo: "S ''demo'' \<noteq> []"
    by (simp add: S_def)
  have a: "\<exists>w'. ai_powered_qa env api_key json_dumps md5_hexdigest now_get now_set text question w
             = Inr (get_fallback_answer env text question, w') \<and>
           requests_sent w' = requests_sent w"
    using key by (auto simp: ai_powered_qa_def miss CacheManager_set_def k Let_def)
  have b: "get_fallback_answer env text question
              = S ''No content available to answer the question.''"
    if "\<forall>s \<in> set (split_on 46 text). length (strip s) \<le> 20"
  proof -
    from that have "filter (\<lambda>s. strip s \<noteq> [] \<and> 20 < length (strip s)) (split_on 46 text) = []"
      by (auto simp: filter_empty_conv)
    then show ?thesis
      by (simp add: get_fallback_answer_def sentences_of_def Let_def)
  qed
  from a b show ?thesis by blast
qed

theorem qa_fallback_without_key_witness:
  "\<exists>w'. ai_powered_qa demo_env None (\<lambda>p. Inr (snd p)) id 0 1 (S ''Short. Text.'')
            (S ''What is revenue?'') fresh_world
          = Inr (S ''No content available to answer the question.'', w') \<and>
        requests_sent w' = []"
proof -
  have k: "(None :: pystr option) = None \<or> None = Some (S ''demo'')"
    by simp
  have m: "CacheManager_get (\<lambda>p. Inr (snd p)) id 0 (S ''qa_response'')
             (py_hash demo_env (take 1000 (S ''Short. Text.'')), S ''What is revenue?'') 60
             (qa_cache fresh_world) = Inr (None, empty_cache)"
    by (simp add: CacheManager_get_def generate_key_def fresh_world_def empty_cache_def
        track_def)
  have s: "\<forall>s \<in> set (split_on 46 (S ''Short. Text.'')). length (strip s) \<le> 20"
    by (simp add: S_def strip_def strip_where_def py_isspace_def)
  from qa_fallback_without_key [OF k m, of 1] s
  have "\<exists>w'. ai_powered_qa demo_env None (\<lambda>p. Inr (snd p)) id 0 1 (S ''Short. Text.'')
            (S ''What is revenue?'') fresh_world
          = Inr (S ''No content available to answer the question.'', w') \<and>
        requests_sent w' = requests_sent fresh_world"
    by auto
  then show ?thesis
    by (simp add: fresh_world_def)
qed

section \<open>Properties of the file ingestion\<close>

lemma map_of_dict_set: "map_of (dict_set d k v) = (map_of d)(k \<mapsto> v)"
  by (induction d) (auto simp: fun_eq_iff)

lemma map_of_dict_update_other:
  "k \<notin> fst ` set u \<Longrightarrow> map_of (dict_update d u) k = map_of d k"
  unfolding dict_update_def
  by (induction u arbitrary: d) (auto simp: map_of_dict_set)

lemma count_keys_not_in_file_info:
  "S ''words'' \<notin> fst ` set (get_file_info f)"
  "S ''characters'' \<notin> fst ` set (get_file_info f)"
  "S ''pages'' \<notin> fst ` set (get_file_info f)"
  "S ''rows'' \<notin> fst ` set (get_file_info f)"
  by (simp_all add: get_file_info_def S_def)

lemma counted_base: "counted content (count_entries content)"
  by (simp add: counted_def count_entries_def S_def)

lemma counted_Cons:
  "k \<noteq> S ''words'' \<Longrightarrow> k \<noteq> S ''characters'' \<Longrightarrow> counted content m \<Longrightarrow>
     counted content ((k, v) # m)"
  by (simp add: counted_def)

lemma process_text_counted:
  "process_text l f = Inr (Some c, Some m) \<Longrightarrow> counted c m"
  by (auto simp: process_text_def text_metadata_def S_def intro!: counted_Cons counted_base
      split: sum.splits option.splits)

lemma process_pdf_counted:
  "process_pdf l f = Inr (Some c, Some m) \<Longrightarrow> counted c m"
  by (auto simp: process_pdf_def Let_def S_def intro!: counted_Cons counted_base split: sum.splits)

lemma process_docx_counted:
  "process_docx l f = Inr (Some c, Some m) \<Longrightarrow> counted c m"
  by (auto simp: process_docx_def Let_def S_def intro!: counted_Cons counted_base split: sum.splits)

lemma process_pptx_counted:
  "process_pptx l f = Inr (Some c, Some m) \<Longrightarrow> counted c m"
  by (auto simp: process_pptx_def Let_def S_def intro!: counted_Cons counted_base
      split: sum.splits prod.splits)

lemma process_excel_counted:
  "process_excel l f = Inr (Some c, Some m) \<Longrightarrow> counted c m"
  by (auto simp: process_excel_def Let_def S_def intro!: counted_Cons counted_base split: sum.splits)

lemma process_csv_counted:
  "process_csv l f = Inr (Some c, Some m) \<Longrightarrow> counted c m"
  by (auto simp: process_csv_def Let_def S_def intro!: counted_Cons counted_base split: sum.splits)

lemma process_json_counted:
  "process_json l f = Inr (Some c, Some m) \<Longrightarrow> counted c m"
  by (auto simp: process_json_def Let_def S_def intro!: counted_Cons counted_base split: sum.splits)

lemma process_xml_counted:
  "process_xml l f = Inr (Some c, Some m) \<Longrightarrow> counted c m"
  by (auto simp: process_xml_def Let_def S_def intro!: counted_Cons counted_base
      split: sum.splits option.splits)


lemma processors_keys: "map fst (processors l) = map fst supported_formats"
  by (simp add: processors_def supported_formats_def)

lemma processors_routines:
  assumes "map_of (processors l) t = Some p"
  shows "p \<in> {process_text l, process_pdf l, process_docx l, process_pptx l,
               process_excel l, process_csv l, process_json l, process_xml l}"
proof -
  from assms have "(t, p) \<in> set (processors l)"
    by (rule map_of_SomeD)
  then show ?thesis
    by (auto simp: processors_def)
qed

lemma routine_counted:
  assumes "map_of (processors l) t = Some p" and "p f = Inr (Some c, Some m)"
  shows "counted c m"
  using processors_routines [OF assms(1)] assms(2)
  by (auto dest: process_text_counted process_pdf_counted process_docx_counted
      process_pptx_counted process_excel_counted process_csv_counted process_json_counted
      process_xml_counted)

lemma process_file_success:
  assumes "process_file l f = (Some content, Some metadata)"
  shows "\<exists>p m. map_of (processors l) (file_type f) = Some p \<and>
           p f = Inr (Some content, Some m) \<and> content \<noteq> [] \<and>
           metadata = dict_update m (get_file_info f)"
  using assms
  by (auto simp: process_file_def Let_def split: option.splits sum.splits if_splits)

lemma select_pdf: "map_of (processors l) (S ''application/pdf'') = Some (process_pdf l)"
  by (simp add: processors_def S_def)

lemma select_csv: "map_of (processors l) (S ''text/csv'') = Some (process_csv l)"
  by (simp add: processors_def S_def)

lemma process_pdf_pages:
  "process_pdf l f = Inr (Some c, Some m) \<Longrightarrow>
     \<exists>pages. pdfplumber_open l f = Inr pages \<and>
       map_of m (S ''pages'') = Some (PInt (int (length pages)))"
  by (auto simp: process_pdf_def Let_def S_def split: sum.splits)

lemma process_csv_rows:
  "process_csv l f = Inr (Some c, Some m) \<Longrightarrow>
     \<exists>df. pd_read_csv l f = Inr df \<and>
       map_of m (S ''rows'') = Some (PInt (int (length (df_cells df))))"
  by (auto simp: process_csv_def Let_def S_def split: sum.splits)

text \<open>
  C4. \<open>process_file\<close> looks the extraction routine up in its table by the declared MIME
  type of the file and by nothing else. The table sends plain text to \<open>_process_text\<close>,
  PDF to \<open>_process_pdf\<close>, the Word type to \<open>_process_docx\<close>, the PowerPoint type to
  \<open>_process_pptx\<close>, the two Excel types to \<open>_process_excel\<close>, CSV to \<open>_process_csv\<close>,
  JSON to \<open>_process_json\<close> and the two XML types to \<open>_process_xml\<close>; these ten
  supported types are all its keys. For a file whose declared type is not one of the ten
  \<open>process_file\<close> returns \<open>(None, None)\<close>. With \<open>p\<close> the routine selected for the file:
  when \<open>p\<close> raises, and when \<open>p\<close> returns \<open>None\<close> or the empty string as content, the
  result is \<open>(None, None)\<close>; when \<open>p\<close> returns a non-empty content with its metadata, the
  result is that content and the metadata updated with the file information.
  \<open>process_file\<close> itself returns a pair on every input: no exception leaves it.
\<close>

theorem process_file_dispatch:
  "map_of (processors l) (S ''text/plain'') = Some (process_text l)
   \<and> map_of (processors l) (S ''application/pdf'') = Some (process_pdf l)
   \<and> map_of (processors l) (S ''application/vnd.openxmlformats-officedocument.wordprocessingml.document'')
       = Some (process_docx l)
   \<and> map_of (processors l) (S ''application/vnd.openxmlformats-officedocument.presentationml.presentation'')
       = Some (process_pptx l)
   \<and> map_of (processors l) (S ''application/vnd.openxmlformats-officedocument.spreadsheetml.sheet'')
       = Some (process_excel l)
   \<and> map_of (processors l) (S ''application/vnd.ms-excel'') = Some (process_excel l)
   \<and> map_of (processors l) (S ''text/csv'') = Some (process_csv l)
   \<and> map_of (processors l) (S ''application/json'') = Some (process_json l)
   \<and> map_of (processors l) (S ''application/xml'') = Some (process_xml l)
   \<and> map_of (processors l) (S ''text/xml'') = Some (process_xml l)
   \<and> map fst (processors l) = map fst supported_formats
   \<and> length supported_formats = 10 \<and> distinct (map fst supported_formats)
   \<and> (file_type f \<notin> set (map fst supported_formats) \<longrightarrow> process_file l f = (None, None))
   \<and> (file_type f \<in> set (map fst supported_formats) \<longrightarrow>
        (\<exists>p. map_of (processors l) (file_type f) = Some p))
   \<and> (\<forall>p. map_of (processors l) (file_type f) = Some p \<longrightarrow>
        (\<forall>e. p f = Inl e \<longrightarrow> process_file l f = (None, None)) \<and>
        (\<forall>m. p f = Inr (None, m) \<or> p f = Inr (Some [], m) \<longrightarrow>
             process_file l f = (None, None)) \<and>
        (\<forall>c m. p f = Inr (Some c, Some m) \<and> c \<noteq> [] \<longrightarrow>
             process_file l f = (Some c, Some (dict_update m (get_file_info f)))))"
proof -
  have routes:
    "map_of (processors l) (S ''text/plain'') = Some (process_text l)"
    "map_of (processors l) (S ''application/pdf'') = Some (process_pdf l)"
    "map_of (processors l) (S ''application/vnd.openxmlformats-officedocument.wordprocessingml.document'')
         = Some (process_docx l)"
    "map_of (processors l) (S ''application/vnd.openxmlformats-officedocument.presentationml.presentation'')
         = Some (process_pptx l)"
    "map_of (processors l) (S ''application/vnd.openxmlformats-officedocument.spreadsheetml.sheet'')
         = Some (process_excel l)"
    "map_of (processors l) (S ''application/vnd.ms-excel'') = Some (process_excel l)"
    "map_of (processors l) (S ''text/csv'') = Some (process_csv l)"
    "map_of (processors l) (S ''application/json'') = Some (process_json l)"
    "map_of (processors l) (S ''application/xml'') = Some (process_xml l)"
    "map_of (processors l) (S ''text/xml'') = Some (process_xml l)"
    by (simp_all add: processors_def S_def)
  have k: "fst ` set (processors l) = set (map fst supported_formats)"
    using processors_keys [of l] by (metis set_map)
  have a: "length supported_formats = 10" "distinct (map fst supported_formats)"
    by (simp_all add: supported_formats_def S_def)
  have b: "process_file l f = (None, None)"
    if "file_type f \<notin> set (map fst supported_formats)"
  proof -
    from that k have "map_of (processors l) (file_type f) = None"
      by (simp add: map_of_eq_None_iff)
    then show ?thesis by (simp add: process_file_def)
  qed
  have c: "\<exists>p. map_of (processors l) (file_type f) = Some p"
    if "file_type f \<in> set (map fst supported_formats)"
  proof -
    from that k have "map_of (processors l) (file_type f) \<noteq> None"
      by (simp add: map_of_eq_None_iff)
    then show ?thesis by blast
  qed
  have d: "\<forall>p. map_of (processors l) (file_type f) = Some p \<longrightarrow>
        (\<forall>e. p f = Inl e \<longrightarrow> process_file l f = (None, None)) \<and>
        (\<forall>m. p f = Inr (None, m) \<or> p f = Inr (Some [], m) \<longrightarrow>
             process_file l f = (None, None)) \<and>
        (\<forall>c m. p f = Inr (Some c, Some m) \<and> c \<noteq> [] \<longrightarrow>
             process_file l f = (Some c, Some (dict_update m (get_file_info f))))"
    by (auto simp: process_file_def)
  from routes processors_keys a b c d show ?thesis
    by blast
qed

text \<open>
  C7. When \<open>process_file\<close> returns a content and a metadata, the entry \<open>'words'\<close> of the
  metadata is the number of whitespace-separated tokens of the content and the entry
  \<open>'characters'\<close> is its length. For a PDF the entry \<open>'pages'\<close> is the number of pages of
  the document pdfplumber opened, and for a CSV the entry \<open>'rows'\<close> is the number of rows
  of the data frame pandas parsed.
\<close>

theorem extraction_counts_consistent:
  assumes "process_file l f = (Some content, Some metadata)"
  shows "map_of metadata (S ''words'') = Some (PInt (int (length (py_split content))))
       \<and> map_of metadata (S ''characters'') = Some (PInt (int (length content)))
       \<and> (file_type f = S ''application/pdf'' \<longrightarrow>
            (\<exists>pages. pdfplumber_open l f = Inr pages \<and>
               map_of metadata (S ''pages'') = Some (PInt (int (length pages)))))
       \<and> (file_type f = S ''text/csv'' \<longrightarrow>
            (\<exists>df. pd_read_csv l f = Inr df \<and>
               map_of metadata (S ''rows'') = Some (PInt (int (length (df_cells df))))))"
proof -
  from process_file_success [OF assms] obtain p m where
    p: "map_of (processors l) (file_type f) = Some p"
    and r: "p f = Inr (Some content, Some m)"
    and u: "metadata = dict_update m (get_file_info f)"
    by blast
  from routine_counted [OF p r] have "counted content m" .
  then have w: "map_of metadata (S ''words'') = Some (PInt (int (length (py_split content))))"
    and ch: "map_of metadata (S ''characters'') = Some (PInt (int (length content)))"
    by (simp_all add: u map_of_dict_update_other count_keys_not_in_file_info counted_def)
  have pdf: "\<exists>pages. pdfplumber_open l f = Inr pages \<and>
               map_of metadata (S ''pages'') = Some (PInt (int (length pages)))"
    if "file_type f = S ''application/pdf''"
  proof -
    from p that have "p = process_pdf l"
      by (simp add: select_pdf)
    with r process_pdf_pages [of l f content m] show ?thesis
      by (simp add: u map_of_dict_update_other count_keys_not_in_file_info)
  qed
  have csv: "\<exists>df. pd_read_csv l f = Inr df \<and>
               map_of metadata (S ''rows'') = Some (PInt (int (length (df_cells df))))"
    if "file_type f = S ''text/csv''"
  proof -
    from p that have "p = process_csv l"
      by (simp add: select_csv)
    with r process_csv_rows [of l f content m] show ?thesis
      by (simp add: u map_of_dict_update_other count_keys_not_in_file_info)
  qed
  from w ch pdf csv show ?thesis
    by blast
qed

theorem process_file_dispatch_witness:
  "process_file demo_libs (demo_file ''image/png'') = (None, None)
   \<and> process_file demo_libs (demo_file ''application/json'') = (None, None)
   \<and> process_file demo_libs broken_stream = (None, None)"
proof -
  note T1 = process_file_dispatch [of demo_libs "demo_file ''image/png''"]
  note T2 = process_file_dispatch [of demo_libs "demo_file ''application/json''"]
  note T3 = process_file_dispatch [of demo_libs broken_stream]
  have u: "file_type (demo_file ''image/png'') \<notin> set (map fst supported_formats)"
    by (simp add: demo_file_def supported_formats_def S_def)
  have j: "map_of (processors demo_libs) (file_type (demo_file ''application/json''))
             = Some (process_json demo_libs)"
    by (simp add: demo_file_def processors_def S_def)
  have jr: "process_json demo_libs (demo_file ''application/json'') = Inr (None, None)"
    by (simp add: process_json_def demo_libs_def)
  have t: "map_of (processors demo_libs) (file_type broken_stream)
             = Some (process_text demo_libs)"
    by (simp add: broken_stream_def processors_def S_def)
  have tr: "process_text demo_libs broken_stream = Inl LibraryError"
    by (simp add: process_text_def broken_stream_def)
  from T1 u have a: "process_file demo_libs (demo_file ''image/png'') = (None, None)"
    by blast
  from T2 j jr have b: "process_file demo_libs (demo_file ''application/json'') = (None, None)"
    by blast
  from T3 t tr have c: "process_file demo_libs broken_stream = (None, None)"
    by blast
  from a b c show ?thesis by blast
qed

lemma demo_pdf_run:
  "\<exists>c m. process_file demo_libs (demo_file ''application/pdf'') = (Some c, Some m)"
proof -
  have sel: "map_of (processors demo_libs) (file_type (demo_file ''application/pdf''))
      = Some (process_pdf demo_libs)"
    by (simp add: demo_file_def select_pdf)
  have "\<exists>c m. process_pdf demo_libs (demo_file ''application/pdf'') = Inr (Some c, Some m)
          \<and> c \<noteq> []"
    by (simp add: process_pdf_def demo_libs_def Let_def pdf_page_content_def demo_page_def
        nl_def S_def)
  then obtain c m where
    "process_pdf demo_libs (demo_file ''application/pdf'') = Inr (Some c, Some m)" "c \<noteq> []"
    by blast
  then show ?thesis
    by (simp add: process_file_def sel)
qed

lemma demo_csv_run:
  "\<exists>c m. process_file demo_libs (demo_file ''text/csv'') = (Some c, Some m)"
proof -
  have sel: "map_of (processors demo_libs) (file_type (demo_file ''text/csv''))
      = Some (process_csv demo_libs)"
    by (simp add: demo_file_def select_csv)
  have "\<exists>c m. process_csv demo_libs (demo_file ''text/csv'') = Inr (Some c, Some m)
          \<and> c \<noteq> []"
    by (simp add: process_csv_def demo_libs_def Let_def csv_content_def S_def)
  then obtain c m where
    "process_csv demo_libs (demo_file ''text/csv'') = Inr (Some c, Some m)" "c \<noteq> []"
    by blast
  then show ?thesis
    by (simp add: process_file_def sel)
qed

theorem extraction_counts_consistent_witness:
  "(\<exists>c m. process_file demo_libs (demo_file ''application/pdf'') = (Some c, Some m) \<and>
      map_of m (S ''words'') = Some (PInt (int (length (py_split c)))) \<and>
      map_of m (S ''characters'') = Some (PInt (int (length c))) \<and>
      map_of m (S ''pages'') = Some (PInt 2))
   \<and> (\<exists>c m. process_file demo_libs (demo_file ''text/csv'') = (Some c, Some m) \<and>
      map_of m (S ''words'') = Some (PInt (int (length (py_split c)))) \<and>
      map_of m (S ''rows'') = Some (PInt 2))"
proof -
  from demo_pdf_run obtain c m where
    r: "process_file demo_libs (demo_file ''application/pdf'') = (Some c, Some m)"
    by blast
  have t: "file_type (demo_file ''application/pdf'') = S ''application/pdf''"
    by (simp add: demo_file_def)
  from extraction_counts_consistent [OF r] t
  have a: "map_of m (S ''words'') = Some (PInt (int (length (py_split c))))"
    "map_of m (S ''characters'') = Some (PInt (int (length c)))"
    "map_of m (S ''pages'') = Some (PInt 2)"
    by (auto simp: demo_libs_def)
  from demo_csv_run obtain c' m' where
    r': "process_file demo_libs (demo_file ''text/csv'') = (Some c', Some m')"
    by blast
  have t': "file_type (demo_file ''text/csv'') = S ''text/csv''"
    by (simp add: demo_file_def)
  from extraction_counts_consistent [OF r'] t'
  have b: "map_of m' (S ''words'') = Some (PInt (int (length (py_split c'))))"
    "map_of m' (S ''rows'') = Some (PInt 2)"
    by (auto simp: demo_libs_def demo_df_def)
  from r a r' b show ?thesis
    by blast
qed

end
